theory Spec2Isabelle
  imports Complex_Main "HOL-Library.Sublist"
begin

section \<open>Go strings\<close>

text \<open>
  A Go \<open>string\<close> is a sequence of bytes, here a \<open>char list\<close>.  The functions of package
  \<open>strings\<close> that the program calls are written out on bytes.
\<close>

text \<open>\<open>strings.Index(s, substr)\<close>: the first position where \<open>substr\<close> occurs, \<open>None\<close> for -1.\<close>

fun Index :: "string \<Rightarrow> string \<Rightarrow> nat option" where
  "Index [] sub = (if sub = [] then Some 0 else None)"
| "Index (c # cs) sub =
     (if prefix sub (c # cs) then Some 0 else map_option Suc (Index cs sub))"

text \<open>
  \<open>strings.SplitN(s, sep, 2)\<close> for a non-empty separator: cut once, at the first
  occurrence of \<open>sep\<close>; without an occurrence the result is the one-element slice \<open>[s]\<close>.
\<close>

definition SplitN2 :: "string \<Rightarrow> string \<Rightarrow> string list" where
  "SplitN2 s sep =
     (case Index s sep of
        None \<Rightarrow> [s]
      | Some i \<Rightarrow> [take i s, drop (i + length sep) s])"

text \<open>
  \<open>strings.Split(s, sep)\<close> for a one-byte separator (the program only splits on
  \<open>"\n"\<close>): the pieces between the separators, at least one piece.
\<close>

fun Split1 :: "string \<Rightarrow> char \<Rightarrow> string list" where
  "Split1 [] sep = [[]]"
| "Split1 (c # cs) sep =
     (if c = sep then [] # Split1 cs sep
      else (case Split1 cs sep of
              [] \<Rightarrow> [[c]]
            | p # ps \<Rightarrow> (c # p) # ps))"

text \<open>
  \<open>unicode.IsSpace\<close> on the UTF-8 encoding of a rune: the six ASCII white-space bytes,
  U+0085 and U+00A0 (two bytes), and U+1680, U+2000..U+200A, U+2028, U+2029, U+202F,
  U+205F, U+3000 (three bytes).
\<close>

definition isSpace1 :: "char \<Rightarrow> bool" where
  "isSpace1 a = (a = CHR 0x09 \<or> a = CHR 0x0A \<or> a = CHR 0x0B \<or> a = CHR 0x0C
                 \<or> a = CHR 0x0D \<or> a = CHR 0x20)"

definition isSpace2 :: "char \<Rightarrow> char \<Rightarrow> bool" where
  "isSpace2 a b = (a = CHR 0xC2 \<and> (b = CHR 0x85 \<or> b = CHR 0xA0))"

definition isSpace3 :: "char \<Rightarrow> char \<Rightarrow> char \<Rightarrow> bool" where
  "isSpace3 a b c =
     ((a = CHR 0xE1 \<and> b = CHR 0x9A \<and> c = CHR 0x80)
      \<or> (a = CHR 0xE2 \<and> b = CHR 0x80
           \<and> (c = CHR 0x80 \<or> c = CHR 0x81 \<or> c = CHR 0x82 \<or> c = CHR 0x83
                \<or> c = CHR 0x84 \<or> c = CHR 0x85 \<or> c = CHR 0x86 \<or> c = CHR 0x87
                \<or> c = CHR 0x88 \<or> c = CHR 0x89 \<or> c = CHR 0x8A
                \<or> c = CHR 0xA8 \<or> c = CHR 0xA9 \<or> c = CHR 0xAF))
      \<or> (a = CHR 0xE2 \<and> b = CHR 0x81 \<and> c = CHR 0x9F)
      \<or> (a = CHR 0xE3 \<and> b = CHR 0x80 \<and> c = CHR 0x80))"

text \<open>
  \<open>strings.TrimLeftFunc(s, unicode.IsSpace)\<close>: drop white-space runes from the front.
  The flag \<open>rv\<close> (reversed) reads the bytes of a rune in reverse order, for the same walk over the
  reversed string (\<open>strings.TrimRightFunc\<close>).
\<close>

fun trimFront :: "bool \<Rightarrow> string \<Rightarrow> string" where
  "trimFront rv (a # b # c # s) =
     (if isSpace1 a then trimFront rv (b # c # s)
      else if (if rv then isSpace2 b a else isSpace2 a b) then trimFront rv (c # s)
      else if (if rv then isSpace3 c b a else isSpace3 a b c) then trimFront rv s
      else a # b # c # s)"
| "trimFront rv [a, b] =
     (if isSpace1 a then trimFront rv [b]
      else if (if rv then isSpace2 b a else isSpace2 a b) then []
      else [a, b])"
| "trimFront rv [a] = (if isSpace1 a then [] else [a])"
| "trimFront rv [] = []"

definition TrimLeftSpace :: "string \<Rightarrow> string" where
  "TrimLeftSpace s = trimFront False s"

definition TrimRightSpace :: "string \<Rightarrow> string" where
  "TrimRightSpace s = rev (trimFront True (rev s))"

text \<open>\<open>strings.TrimSpace(s)\<close>.\<close>

definition TrimSpace :: "string \<Rightarrow> string" where
  "TrimSpace s = TrimRightSpace (TrimLeftSpace s)"

section \<open>Package git: the repository status\<close>

record Status =
  IsRepo :: bool
  Branch :: string
  HasStaged :: bool
  HasUnstaged :: bool
  HasUntracked :: bool
  Ahead :: int
  Behind :: int
  StagedFiles :: "string list"
  ModifiedFiles :: "string list"
  UntrackedFiles :: "string list"
  RemoteURL :: string

text \<open>The zero value \<open>&Status{}\<close>.\<close>

definition Status_zero :: Status where
  "Status_zero = \<lparr>IsRepo = False, Branch = [], HasStaged = False, HasUnstaged = False,
     HasUntracked = False, Ahead = 0, Behind = 0, StagedFiles = [], ModifiedFiles = [],
     UntrackedFiles = [], RemoteURL = []\<rparr>"

text \<open>
  The body of the loop of \<open>GetStatus\<close> over the lines of \<open>git status --porcelain\<close>:
  a line shorter than three bytes is skipped, otherwise \<open>x = line[0]\<close>, \<open>y = line[1]\<close>
  and \<open>file = strings.TrimSpace(line[3:])\<close>, and the three tests run one after the other.
\<close>

definition GetStatus_line :: "Status \<Rightarrow> string \<Rightarrow> Status" where
  "GetStatus_line status line =
     (if length line < 3 then status
      else
        let x = line ! 0;
            y = line ! 1;
            file = TrimSpace (drop 3 line);
            s1 = (if x \<noteq> CHR '' '' \<and> x \<noteq> CHR ''?''
                  then status\<lparr>HasStaged := True,
                              StagedFiles := StagedFiles status @ [file]\<rparr>
                  else status);
            s2 = (if y \<noteq> CHR '' '' \<and> y \<noteq> CHR ''?''
                  then s1\<lparr>HasUnstaged := True,
                          ModifiedFiles := ModifiedFiles s1 @ [file]\<rparr>
                  else s1);
            s3 = (if x = CHR ''?'' \<and> y = CHR ''?''
                  then s2\<lparr>HasUntracked := True,
                          UntrackedFiles := UntrackedFiles s2 @ [file]\<rparr>
                  else s2)
        in s3)"

text \<open>
  The loop itself: \<open>lines := strings.Split(string(output), "\n")\<close>, then the body on every
  line in order.
\<close>

definition GetStatus_porcelain :: "Status \<Rightarrow> string \<Rightarrow> Status" where
  "GetStatus_porcelain status output = foldl GetStatus_line status (Split1 output CHR 0x0A)"

section \<open>Package config\<close>

text \<open>An \<open>error\<close> value is stood for by its text (\<open>err.Error()\<close>).\<close>

type_synonym error = string

record GitConfig =
  UserName :: string
  UserEmail :: string
  Editor :: string

text \<open>The \<open>float64\<close> field \<open>Temperature\<close> only ever holds the literal of the defaults
  or what the file gives; it is kept as a rational number.\<close>

record AIConfig =
  Provider :: string
  Model :: string
  APIKey :: string
  MaxDiffSize :: int
  Temperature :: rat

record UIConfig =
  Theme :: string
  ShowIcons :: bool
  AnimationMs :: int

record GitHubConfig =
  DefaultVisibility :: string
  NormalizeAuthor :: bool

record Config =
  Git :: GitConfig
  AI :: AIConfig
  UI :: UIConfig
  GitHub :: GitHubConfig

definition DefaultConfig :: Config where
  "DefaultConfig =
     \<lparr>Git = \<lparr>UserName = [], UserEmail = [], Editor = ''vim''\<rparr>,
      AI = \<lparr>Provider = ''openai'', Model = ''gpt-4o-mini'', APIKey = [],
            MaxDiffSize = 4000, Temperature = 7 / 10\<rparr>,
      UI = \<lparr>Theme = ''charm'', ShowIcons = True, AnimationMs = 100\<rparr>,
      GitHub = \<lparr>DefaultVisibility = ''public'', NormalizeAuthor = False\<rparr>\<rparr>"

text \<open>
  What \<open>Load\<close> and \<open>Save\<close> find outside the program: the result of \<open>os.ReadFile\<close> on the
  configuration path (with \<open>os.IsNotExist\<close> telling a missing file from another failure),
  \<open>yaml.Unmarshal\<close> and \<open>yaml.Marshal\<close>, \<open>os.Getenv\<close>, and whether \<open>os.MkdirAll\<close> and
  \<open>os.WriteFile\<close> fail.
\<close>

datatype ReadResult = ReadData string | ReadNotExist error | ReadFailed error

record ConfigEnv =
  ReadFile :: ReadResult
  Unmarshal :: "string \<Rightarrow> Config \<Rightarrow> error + Config"
  Marshal :: "Config \<Rightarrow> error + string"
  Getenv :: "string \<Rightarrow> string"
  MkdirAll :: "error option"
  WriteFile :: "string \<Rightarrow> error option"

text \<open>\<open>Save\<close>: the error it returns, and the data written to the file (if it got there).\<close>

definition Save :: "ConfigEnv \<Rightarrow> Config \<Rightarrow> error option \<times> string option" where
  "Save env cfg =
     (case MkdirAll env of
        Some e \<Rightarrow> (Some e, None)
      | None \<Rightarrow>
          (case Marshal env cfg of
             Inl e \<Rightarrow> (Some e, None)
           | Inr data \<Rightarrow> (WriteFile env data, Some data)))"

text \<open>
  \<open>Load\<close>: the configuration and the error it returns, and the data written to the file
  by its call of \<open>Save\<close> (the error of \<open>Save\<close> is dropped: \<open>_ = Save(cfg)\<close>).
\<close>

definition Load :: "ConfigEnv \<Rightarrow> (Config \<times> error option) \<times> string option" where
  "Load env =
     (let cfg = DefaultConfig in
      case ReadFile env of
        ReadNotExist e \<Rightarrow> ((cfg, None), snd (Save env cfg))
      | ReadFailed e \<Rightarrow> ((cfg, None), None)
      | ReadData data \<Rightarrow>
          (case Unmarshal env data cfg of
             Inl e \<Rightarrow> ((DefaultConfig, Some e), None)
           | Inr cfg1 \<Rightarrow>
               (let cfg2 = (if APIKey (AI cfg1) = []
                            then cfg1\<lparr>AI := (AI cfg1)\<lparr>APIKey := Getenv env ''OPENAI_API_KEY''\<rparr>\<rparr>
                            else cfg1)
                in ((cfg2, None), None))))"

section \<open>Running programs\<close>

text \<open>
  \<open>exec.Command(argv...)\<close> followed by \<open>Run\<close> or \<open>CombinedOutput\<close>: the outside world
  \<open>'w\<close> answers with its next state, the combined output and the error.  The list beside
  the world records the programs run so far, in order.
\<close>

type_synonym 'w Proc = "'w \<Rightarrow> string list \<Rightarrow> 'w \<times> string \<times> error option"

type_synonym 'w OS = "'w \<times> string list list"

definition exec_Command ::
  "'w Proc \<Rightarrow> string list \<Rightarrow> 'w OS \<Rightarrow> (string \<times> error option) \<times> 'w OS" where
  "exec_Command proc argv os =
     (case proc (fst os) argv of
        (w, out, e) \<Rightarrow> ((out, e), (w, snd os @ [argv])))"

text \<open>\<open>git.Reset\<close> and \<open>git.Rollback\<close>: \<open>cmd.Run()\<close>, the error is returned as it is.\<close>

definition Reset :: "'w Proc \<Rightarrow> 'w OS \<Rightarrow> error option \<times> 'w OS" where
  "Reset proc os =
     (case exec_Command proc [''git'', ''reset'', ''--hard''] os of
        ((out, e), os1) \<Rightarrow> (e, os1))"

definition Rollback :: "'w Proc \<Rightarrow> 'w OS \<Rightarrow> error option \<times> 'w OS" where
  "Rollback proc os =
     (case exec_Command proc [''git'', ''reset'', ''--hard'', ''HEAD^''] os of
        ((out, e), os1) \<Rightarrow> (e, os1))"

text \<open>
  \<open>git.TagAnnotated\<close>: a plain \<open>git tag name\<close> for an empty message, \<open>git tag -a name -m
  message\<close> otherwise; a failure is wrapped as \<open>fmt.Errorf("%s: %w", output, err)\<close>.
\<close>

definition TagAnnotated :: "'w Proc \<Rightarrow> string \<Rightarrow> string \<Rightarrow> 'w OS \<Rightarrow> error option \<times> 'w OS" where
  "TagAnnotated proc name message os =
     (case exec_Command proc
             (if message = [] then [''git'', ''tag'', name]
              else [''git'', ''tag'', ''-a'', name, ''-m'', message]) os of
        ((out, Some e), os1) \<Rightarrow> (Some (out @ '': '' @ e), os1)
      | ((out, None), os1) \<Rightarrow> (None, os1))"

text \<open>\<open>git.PushTags\<close>: \<open>git push --tags\<close>.\<close>

definition PushTags :: "'w Proc \<Rightarrow> 'w OS \<Rightarrow> error option \<times> 'w OS" where
  "PushTags proc os =
     (case exec_Command proc [''git'', ''push'', ''--tags''] os of
        ((out, e), os1) \<Rightarrow> (e, os1))"

section \<open>Messages and commands\<close>

text \<open>
  A \<open>tea.Msg\<close> is one of the message types of the program, a key press (by its
  \<open>msg.String()\<close>), a window size, a spinner tick, or some other message of a library
  (\<open>LibMsg\<close>: a cursor blink, the messages a form sends itself).  A
  \<open>glamour.TermRenderer\<close> is known by a number; what it renders is the library's business.
\<close>

type_synonym TermRenderer = nat

datatype Msg =
    KeyMsg string
  | WindowSizeMsg int int
  | spinner_TickMsg
  | statusMsg "Status option" "error option"
  | actionCompleteMsg bool string
  | clearMsgMsg
  | ReturnToMenuMsg string string
  | resetDoneMsg
  | resetErrorMsg error
  | rollbackDoneMsg
  | rollbackErrorMsg error
  | releaseDoneMsg
  | releaseErrorMsg error
  | publishRepoCheckedMsg string bool
  | publishErrorMsg error
  | publishDoneMsg string
  | commitReadyMsg string
  | commitNoChangesMsg
  | commitErrorMsg error
  | commitGeneratedMsg string
  | commitDoneMsg
  | rendererMsg "TermRenderer option"
  | LibMsg nat

text \<open>
  A \<open>tea.Cmd\<close> is a function that the runtime calls later for its message.  Commands are
  data here: \<open>CmdNil\<close> is \<open>nil\<close>, \<open>CmdMsg msg\<close> is a closure that returns \<open>msg\<close> and does
  nothing else, \<open>Tick d msg\<close> is \<open>tea.Tick\<close> of \<open>d\<close> seconds whose callback returns \<open>msg\<close>,
  \<open>Batch\<close> is \<open>tea.Batch\<close>.  The other constructors name the method or closure that is
  returned, with the fields of the model it reads when it runs.
\<close>

datatype Cmd =
    CmdNil
  | CmdMsg Msg
  | Quit
  | Batch "Cmd list"
  | Tick nat Msg
  | LibCmd nat
  | spinner_Tick
  | textinput_Blink
  | refreshStatus
  | AddAllCmd
  | PushCmd
  | PullCmd
  | OpenCmd
  | BranchesCmd
  | ExecProcess "string list"
  | doReset
  | doRollback
  | doRelease string string
  | checkRepo
  | pushToRemote string
  | doPublish
  | checkStatusAsync bool
  | initRendererCmd
  | generateMessage string
  | doCommit string

text \<open>The bodies of the commands of the reset, rollback and release flows.\<close>

definition run_doReset :: "'w Proc \<Rightarrow> 'w OS \<Rightarrow> Msg \<times> 'w OS" where
  "run_doReset proc os =
     (case Reset proc os of
        (Some e, os1) \<Rightarrow> (resetErrorMsg e, os1)
      | (None, os1) \<Rightarrow> (resetDoneMsg, os1))"

definition run_doRollback :: "'w Proc \<Rightarrow> 'w OS \<Rightarrow> Msg \<times> 'w OS" where
  "run_doRollback proc os =
     (case Rollback proc os of
        (Some e, os1) \<Rightarrow> (rollbackErrorMsg e, os1)
      | (None, os1) \<Rightarrow> (rollbackDoneMsg, os1))"

definition run_doRelease :: "'w Proc \<Rightarrow> string \<Rightarrow> string \<Rightarrow> 'w OS \<Rightarrow> Msg \<times> 'w OS" where
  "run_doRelease proc tagName message os =
     (case TagAnnotated proc tagName message os of
        (Some e, os1) \<Rightarrow> (releaseErrorMsg (''failed to create tag: '' @ e), os1)
      | (None, os1) \<Rightarrow>
          (case PushTags proc os1 of
             (Some e, os2) \<Rightarrow> (releaseErrorMsg (''failed to push tags: '' @ e), os2)
           | (None, os2) \<Rightarrow> (releaseDoneMsg, os2)))"

section \<open>The widgets of the libraries\<close>

text \<open>
  Of a \<open>huh.Form\<close> the program reads only \<open>State\<close>; the rest of the form is the library's
  (\<open>inner\<close>).  The fields of a form write through the pointers given to \<open>Value(&m.field)\<close>,
  so the step of a form takes the values behind these pointers and returns them with the
  form.  \<open>Form.Update\<close> returns the form itself, so the type assertion
  \<open>form.(*huh.Form)\<close> of the flows holds and \<open>m.form\<close> is the form after the step.
  \<open>huh.NewForm\<close> starts in \<open>StateNormal\<close>.
\<close>

datatype huh_FormState = StateNormal | StateCompleted | StateAborted

record huh_Form =
  State :: huh_FormState
  inner :: nat

definition huh_NewForm :: huh_Form where
  "huh_NewForm = \<lparr>State = StateNormal, inner = 0\<rparr>"

text \<open>
  A \<open>textinput.Model\<close> and a \<open>textarea.Model\<close> hold a text and know whether they have the
  focus: \<open>Value\<close> reads the text, \<open>Focus\<close>, \<open>Blur\<close> and \<open>Focused\<close> write and read the focus.
  What \<open>SetValue\<close> stores is decided by the widget (it cleans the text it is given and
  cuts it at its \<open>CharLimit\<close>), so \<open>SetValue\<close> is a function of the libraries below.
\<close>

record textinput_Model =
  Value :: string
  focus :: bool
  Placeholder :: string
  CharLimit :: int
  Width :: int

record textarea_Model =
  Value :: string
  focus :: bool
  Placeholder :: string
  width :: int
  height :: int

definition textinput_New :: textinput_Model where
  "textinput_New = \<lparr>textinput_Model.Value = [], textinput_Model.focus = False,
     textinput_Model.Placeholder = [], CharLimit = 0, Width = 0\<rparr>"

definition textarea_New :: textarea_Model where
  "textarea_New = \<lparr>textarea_Model.Value = [], textarea_Model.focus = False,
     textarea_Model.Placeholder = [], width = 0, height = 0\<rparr>"

type_synonym spinner_Model = nat

text \<open>
  The actions of the menu and its items.  Of the \<open>list.Model\<close> of the menu the program
  uses the items and the selected one: \<open>SelectedItem\<close> is the item at the cursor, if
  there is one.
\<close>

datatype Action =
    ActionNone | ActionAdd | ActionCommit | ActionAICommit | ActionPush | ActionPull
  | ActionReset | ActionRollback | ActionPublish | ActionOpen | ActionLazygit
  | ActionBranches | ActionQuit

record menuItem =
  icon :: string
  title :: string
  desc :: string
  shortcut :: string
  action :: Action

record list_Model =
  Items :: "menuItem list"
  cursor :: nat

definition SelectedItem :: "list_Model \<Rightarrow> menuItem option" where
  "SelectedItem l = (if cursor l < length (Items l) then Some (Items l ! cursor l) else None)"

text \<open>
  What the libraries do in answer to a message is not the program's: every \<open>Update\<close> of a
  widget, \<open>form.Init\<close>, \<open>SetValue\<close> of a text input and of a text area, \<open>InsertString\<close> at
  the cursor of a text area and \<open>Render\<close> of a renderer are parameters of the model, as is
  \<open>git.GetRepoName\<close> (the name of the working directory).
\<close>

record Lib =
  list_Update :: "list_Model \<Rightarrow> Msg \<Rightarrow> list_Model \<times> Cmd"
  spinner_Update :: "spinner_Model \<Rightarrow> Msg \<Rightarrow> spinner_Model \<times> Cmd"
  form_Init :: "huh_Form \<Rightarrow> Cmd"
  confirm_Update :: "huh_Form \<Rightarrow> bool \<Rightarrow> Msg \<Rightarrow> (huh_Form \<times> bool) \<times> Cmd"
  release_Update :: "huh_Form \<Rightarrow> string \<times> string \<times> bool \<Rightarrow> Msg
                      \<Rightarrow> (huh_Form \<times> string \<times> string \<times> bool) \<times> Cmd"
  publish_Update :: "huh_Form \<Rightarrow> string \<times> string \<times> string \<times> string \<times> bool \<Rightarrow> Msg
                      \<Rightarrow> (huh_Form \<times> string \<times> string \<times> string \<times> string \<times> bool) \<times> Cmd"
  textinput_Update :: "textinput_Model \<Rightarrow> Msg \<Rightarrow> textinput_Model \<times> Cmd"
  textarea_Update :: "textarea_Model \<Rightarrow> Msg \<Rightarrow> textarea_Model \<times> Cmd"
  textinput_SetValue :: "textinput_Model \<Rightarrow> string \<Rightarrow> textinput_Model"
  textarea_SetValue :: "textarea_Model \<Rightarrow> string \<Rightarrow> textarea_Model"
  textarea_InsertString :: "textarea_Model \<Rightarrow> string \<Rightarrow> textarea_Model"
  Render :: "TermRenderer \<Rightarrow> string \<Rightarrow> error + string"
  GetRepoName :: string

section \<open>The reset flow\<close>

datatype resetState = resetStateConfirm | resetStateWorking | resetStateDone | resetStateError

record ResetModel =
  state :: resetState
  spinner :: spinner_Model
  form :: "huh_Form option"
  confirmed :: bool
  err :: "error option"

definition NewResetModel :: ResetModel where
  "NewResetModel = \<lparr>ResetModel.state = resetStateConfirm, ResetModel.spinner = 0,
     ResetModel.form = None, ResetModel.confirmed = False, ResetModel.err = None\<rparr>"

definition ResetModel_Init :: "Lib \<Rightarrow> ResetModel \<Rightarrow> ResetModel \<times> Cmd" where
  "ResetModel_Init lib m = (m\<lparr>ResetModel.form := Some huh_NewForm\<rparr>, form_Init lib huh_NewForm)"

text \<open>The part of \<open>ResetModel.Update\<close> after the type switch (\<open>// Update form\<close>).\<close>

definition ResetModel_form :: "Lib \<Rightarrow> ResetModel \<Rightarrow> Msg \<Rightarrow> ResetModel \<times> Cmd" where
  "ResetModel_form lib m msg =
     (case ResetModel.form m of
        None \<Rightarrow> (m, CmdNil)
      | Some f \<Rightarrow>
          if ResetModel.state m = resetStateConfirm then
            (case confirm_Update lib f (ResetModel.confirmed m) msg of
               ((f1, c1), cmd) \<Rightarrow>
                 (let m1 = m\<lparr>ResetModel.form := Some f1, ResetModel.confirmed := c1\<rparr> in
                  if State f1 = StateCompleted then
                    (if ResetModel.confirmed m1
                     then (m1\<lparr>ResetModel.state := resetStateWorking\<rparr>, doReset)
                     else (m1, CmdMsg (ReturnToMenuMsg ''Reset cancelled'' ''info'')))
                  else (m1, cmd)))
          else (m, CmdNil))"

definition ResetModel_Update :: "Lib \<Rightarrow> ResetModel \<Rightarrow> Msg \<Rightarrow> ResetModel \<times> Cmd" where
  "ResetModel_Update lib m msg =
     (case msg of
        KeyMsg k \<Rightarrow>
          if k = ''ctrl+c'' \<or> k = ''esc'' then (m, CmdMsg (ReturnToMenuMsg [] []))
          else ResetModel_form lib m msg
      | spinner_TickMsg \<Rightarrow>
          (case spinner_Update lib (ResetModel.spinner m) msg of
             (sp, cmd) \<Rightarrow> (m\<lparr>ResetModel.spinner := sp\<rparr>, cmd))
      | _ \<Rightarrow> ResetModel_form lib m msg)"

section \<open>The rollback flow\<close>

datatype rollbackState =
  rollbackStateConfirm | rollbackStateWorking | rollbackStateDone | rollbackStateError

record RollbackModel =
  state :: rollbackState
  spinner :: spinner_Model
  form :: "huh_Form option"
  confirmed :: bool
  err :: "error option"

definition NewRollbackModel :: RollbackModel where
  "NewRollbackModel = \<lparr>RollbackModel.state = rollbackStateConfirm,
     RollbackModel.spinner = 0, RollbackModel.form = None, RollbackModel.confirmed = False,
     RollbackModel.err = None\<rparr>"

definition RollbackModel_Init :: "Lib \<Rightarrow> RollbackModel \<Rightarrow> RollbackModel \<times> Cmd" where
  "RollbackModel_Init lib m =
     (m\<lparr>RollbackModel.form := Some huh_NewForm\<rparr>, form_Init lib huh_NewForm)"

definition RollbackModel_form :: "Lib \<Rightarrow> RollbackModel \<Rightarrow> Msg \<Rightarrow> RollbackModel \<times> Cmd" where
  "RollbackModel_form lib m msg =
     (case RollbackModel.form m of
        None \<Rightarrow> (m, CmdNil)
      | Some f \<Rightarrow>
          if RollbackModel.state m = rollbackStateConfirm then
            (case confirm_Update lib f (RollbackModel.confirmed m) msg of
               ((f1, c1), cmd) \<Rightarrow>
                 (let m1 = m\<lparr>RollbackModel.form := Some f1, RollbackModel.confirmed := c1\<rparr> in
                  if State f1 = StateCompleted then
                    (if RollbackModel.confirmed m1
                     then (m1\<lparr>RollbackModel.state := rollbackStateWorking\<rparr>, doRollback)
                     else (m1, CmdMsg (ReturnToMenuMsg ''Rollback cancelled'' ''info'')))
                  else (m1, cmd)))
          else (m, CmdNil))"

definition RollbackModel_Update :: "Lib \<Rightarrow> RollbackModel \<Rightarrow> Msg \<Rightarrow> RollbackModel \<times> Cmd" where
  "RollbackModel_Update lib m msg =
     (case msg of
        KeyMsg k \<Rightarrow>
          if k = ''ctrl+c'' \<or> k = ''esc'' then (m, CmdMsg (ReturnToMenuMsg [] []))
          else RollbackModel_form lib m msg
      | spinner_TickMsg \<Rightarrow>
          (case spinner_Update lib (RollbackModel.spinner m) msg of
             (sp, cmd) \<Rightarrow> (m\<lparr>RollbackModel.spinner := sp\<rparr>, cmd))
      | rollbackDoneMsg \<Rightarrow>
          (m\<lparr>RollbackModel.state := rollbackStateDone\<rparr>,
           CmdMsg (ReturnToMenuMsg ''Rollback successful'' ''success''))
      | rollbackErrorMsg e \<Rightarrow>
          (m\<lparr>RollbackModel.state := rollbackStateError, RollbackModel.err := Some e\<rparr>, CmdNil)
      | _ \<Rightarrow> RollbackModel_form lib m msg)"

section \<open>The release flow\<close>

datatype releaseState =
  releaseStateForm | releaseStateWorking | releaseStateDone | releaseStateError

record ReleaseModel =
  state :: releaseState
  spinner :: spinner_Model
  form :: "huh_Form option"
  tagName :: string
  message :: string
  confirm :: bool
  err :: "error option"

definition NewReleaseModel :: ReleaseModel where
  "NewReleaseModel = \<lparr>ReleaseModel.state = releaseStateForm, ReleaseModel.spinner = 0,
     ReleaseModel.form = None, ReleaseModel.tagName = [], ReleaseModel.message = [],
     ReleaseModel.confirm = False, ReleaseModel.err = None\<rparr>"

definition ReleaseModel_Init :: "Lib \<Rightarrow> ReleaseModel \<Rightarrow> ReleaseModel \<times> Cmd" where
  "ReleaseModel_Init lib m =
     (m\<lparr>ReleaseModel.form := Some huh_NewForm\<rparr>, Batch [spinner_Tick, form_Init lib huh_NewForm])"

definition ReleaseModel_form :: "Lib \<Rightarrow> ReleaseModel \<Rightarrow> Msg \<Rightarrow> ReleaseModel \<times> Cmd" where
  "ReleaseModel_form lib m msg =
     (case ReleaseModel.form m of
        None \<Rightarrow> (m, CmdNil)
      | Some f \<Rightarrow>
          if ReleaseModel.state m = releaseStateForm then
            (case release_Update lib f
                    (ReleaseModel.tagName m, ReleaseModel.message m, ReleaseModel.confirm m) msg of
               ((f1, t1, g1, c1), cmd) \<Rightarrow>
                 (let m1 = m\<lparr>ReleaseModel.form := Some f1, ReleaseModel.tagName := t1,
                              ReleaseModel.message := g1, ReleaseModel.confirm := c1\<rparr> in
                  if State f1 = StateCompleted then
                    (if ReleaseModel.confirm m1
                     then (m1\<lparr>ReleaseModel.state := releaseStateWorking\<rparr>,
                           doRelease (ReleaseModel.tagName m1) (ReleaseModel.message m1))
                     else (m1, CmdMsg (ReturnToMenuMsg ''Release cancelled'' ''info'')))
                  else (m1, cmd)))
          else (m, CmdNil))"

definition ReleaseModel_Update :: "Lib \<Rightarrow> ReleaseModel \<Rightarrow> Msg \<Rightarrow> ReleaseModel \<times> Cmd" where
  "ReleaseModel_Update lib m msg =
     (case msg of
        KeyMsg k \<Rightarrow>
          if k = ''ctrl+c'' \<or> k = ''esc'' then (m, CmdMsg (ReturnToMenuMsg [] []))
          else ReleaseModel_form lib m msg
      | spinner_TickMsg \<Rightarrow>
          (case spinner_Update lib (ReleaseModel.spinner m) msg of
             (sp, cmd) \<Rightarrow> (m\<lparr>ReleaseModel.spinner := sp\<rparr>, cmd))
      | releaseDoneMsg \<Rightarrow>
          (m\<lparr>ReleaseModel.state := releaseStateDone\<rparr>,
           CmdMsg (ReturnToMenuMsg
                     (''Release '' @ ReleaseModel.tagName m @ '' created and pushed'') ''success''))
      | releaseErrorMsg e \<Rightarrow>
          (m\<lparr>ReleaseModel.state := releaseStateError, ReleaseModel.err := Some e\<rparr>, CmdNil)
      | _ \<Rightarrow> ReleaseModel_form lib m msg)"

section \<open>The publish flow\<close>

text \<open>\<open>fmt.Sprintf("%v", err)\<close>: the text of the error, \<open><nil>\<close> for no error.\<close>

definition fmt_v :: "error option \<Rightarrow> string" where
  "fmt_v e = (case e of None \<Rightarrow> ''<nil>'' | Some t \<Rightarrow> t)"

datatype publishState =
    publishStateInit | publishStateCheckRepo | publishStateForm | publishStateConfirm
  | publishStateWorking | publishStateDone | publishStateError

record PublishModel =
  cfg :: Config
  state :: publishState
  spinner :: spinner_Model
  form :: "huh_Form option"
  repoName :: string
  description :: string
  visibility :: string
  commitMsg :: string
  addTag :: bool
  tagName :: string
  hasRemote :: bool
  branch :: string
  err :: "error option"
  repoURL :: string
  nameInput :: textinput_Model
  descInput :: textinput_Model
  tagInput :: textinput_Model

definition NewPublishModel :: "Lib \<Rightarrow> Config \<Rightarrow> PublishModel" where
  "NewPublishModel lib c =
     \<lparr>PublishModel.cfg = c, PublishModel.state = publishStateInit, PublishModel.spinner = 0,
      PublishModel.form = None, PublishModel.repoName = [], PublishModel.description = [],
      PublishModel.visibility = DefaultVisibility (GitHub c), PublishModel.commitMsg = [],
      PublishModel.addTag = False, PublishModel.tagName = [], PublishModel.hasRemote = False,
      PublishModel.branch = [], PublishModel.err = None, PublishModel.repoURL = [],
      PublishModel.nameInput =
        (textinput_SetValue lib
           (textinput_New\<lparr>textinput_Model.Placeholder := GetRepoName lib\<rparr>) (GetRepoName lib))
          \<lparr>textinput_Model.focus := True, CharLimit := 100, Width := 40\<rparr>,
      PublishModel.descInput =
        textinput_New\<lparr>textinput_Model.Placeholder := ''Optional description...'',
                        CharLimit := 200, Width := 40\<rparr>,
      PublishModel.tagInput =
        textinput_New\<lparr>textinput_Model.Placeholder := ''v1.0.0'', CharLimit := 20, Width := 20\<rparr>\<rparr>"

definition PublishModel_Init :: "Lib \<Rightarrow> PublishModel \<Rightarrow> PublishModel \<times> Cmd" where
  "PublishModel_Init lib m = (m, Batch [spinner_Tick, checkRepo])"

definition initForm :: "Lib \<Rightarrow> PublishModel \<Rightarrow> PublishModel \<times> Cmd" where
  "initForm lib m =
     (let m1 = m\<lparr>PublishModel.form := Some huh_NewForm\<rparr>;
          m2 = (if PublishModel.repoName m1 = []
                then m1\<lparr>PublishModel.repoName := GetRepoName lib\<rparr> else m1);
          m3 = (if PublishModel.commitMsg m2 = []
                then m2\<lparr>PublishModel.commitMsg := ''Initial commit''\<rparr> else m2)
      in (m3, form_Init lib huh_NewForm))"

definition PublishModel_handleEnter :: "PublishModel \<Rightarrow> PublishModel \<times> Cmd" where
  "PublishModel_handleEnter m =
     (case PublishModel.state m of
        publishStateConfirm \<Rightarrow> (m\<lparr>PublishModel.state := publishStateWorking\<rparr>, doPublish)
      | publishStateError \<Rightarrow>
          (m, CmdMsg (ReturnToMenuMsg (''Error: '' @ fmt_v (PublishModel.err m)) ''error''))
      | publishStateDone \<Rightarrow>
          (m, CmdMsg (ReturnToMenuMsg (''Published to '' @ PublishModel.repoURL m) ''success''))
      | _ \<Rightarrow> (m, CmdNil))"

definition PublishModel_form :: "Lib \<Rightarrow> PublishModel \<Rightarrow> Msg \<Rightarrow> PublishModel \<times> Cmd" where
  "PublishModel_form lib m msg =
     (case PublishModel.form m of
        None \<Rightarrow> (m, CmdNil)
      | Some f \<Rightarrow>
          if PublishModel.state m = publishStateForm then
            (case publish_Update lib f
                    (PublishModel.repoName m, PublishModel.description m,
                     PublishModel.visibility m, PublishModel.commitMsg m,
                     PublishModel.addTag m) msg of
               ((f1, n1, d1, v1, c1, a1), cmd) \<Rightarrow>
                 (let m1 = m\<lparr>PublishModel.form := Some f1, PublishModel.repoName := n1,
                              PublishModel.description := d1, PublishModel.visibility := v1,
                              PublishModel.commitMsg := c1, PublishModel.addTag := a1\<rparr> in
                  if State f1 = StateCompleted
                  then (m1\<lparr>PublishModel.state := publishStateConfirm\<rparr>, CmdNil)
                  else (m1, cmd)))
          else (m, CmdNil))"

definition PublishModel_Update :: "Lib \<Rightarrow> PublishModel \<Rightarrow> Msg \<Rightarrow> PublishModel \<times> Cmd" where
  "PublishModel_Update lib m msg =
     (case msg of
        KeyMsg k \<Rightarrow>
          if k = ''ctrl+c'' \<or> k = ''esc'' then (m, CmdMsg (ReturnToMenuMsg [] []))
          else if k = ''enter'' \<and> PublishModel.state m \<noteq> publishStateForm
          then PublishModel_handleEnter m
          else PublishModel_form lib m msg
      | spinner_TickMsg \<Rightarrow>
          (case spinner_Update lib (PublishModel.spinner m) msg of
             (sp, cmd) \<Rightarrow> (m\<lparr>PublishModel.spinner := sp\<rparr>, cmd))
      | publishRepoCheckedMsg b h \<Rightarrow>
          (let m1 = m\<lparr>PublishModel.branch := b, PublishModel.hasRemote := h\<rparr> in
           if h then (m1\<lparr>PublishModel.state := publishStateWorking\<rparr>, pushToRemote b)
           else initForm lib (m1\<lparr>PublishModel.state := publishStateForm\<rparr>))
      | publishErrorMsg e \<Rightarrow>
          (m\<lparr>PublishModel.state := publishStateError, PublishModel.err := Some e\<rparr>, CmdNil)
      | publishDoneMsg url \<Rightarrow>
          (m\<lparr>PublishModel.state := publishStateDone, PublishModel.repoURL := url\<rparr>,
           CmdMsg (ReturnToMenuMsg (''Published to '' @ url) ''success''))
      | _ \<Rightarrow> PublishModel_form lib m msg)"

section \<open>The commit flow\<close>

datatype commitState =
    commitStateInput | commitStateGenerating | commitStateConfirm | commitStateCommitting
  | commitStateDone | commitStateNoChanges | commitStateError

record CommitModel =
  cfg :: Config
  useAI :: bool
  state :: commitState
  spinner :: spinner_Model
  textInput :: textinput_Model
  textArea :: textarea_Model
  commitMsg :: string
  renderedMsg :: string
  renderer :: "TermRenderer option"
  err :: "error option"
  diff :: string
  ready :: bool

definition NewCommitModel :: "Config \<Rightarrow> bool \<Rightarrow> CommitModel" where
  "NewCommitModel c ai =
     \<lparr>CommitModel.cfg = c, CommitModel.useAI = ai, CommitModel.state = commitStateInput,
      CommitModel.spinner = 0,
      CommitModel.textInput =
        textinput_New\<lparr>textinput_Model.Placeholder := ''Enter commit message...'',
                        CharLimit := 200, Width := 60, textinput_Model.focus := True\<rparr>,
      CommitModel.textArea =
        textarea_New\<lparr>textarea_Model.Placeholder := ''Enter detailed commit message (optional)...'',
                       width := 60, height := 5\<rparr>,
      CommitModel.commitMsg = [], CommitModel.renderedMsg = [], CommitModel.renderer = None,
      CommitModel.err = None, CommitModel.diff = [], CommitModel.ready = False\<rparr>"

definition CommitModel_Init :: "CommitModel \<Rightarrow> CommitModel \<times> Cmd" where
  "CommitModel_Init m =
     (m, Batch [spinner_Tick, textinput_Blink, checkStatusAsync (CommitModel.useAI m),
                initRendererCmd])"

definition renderMessage :: "Lib \<Rightarrow> CommitModel \<Rightarrow> string \<Rightarrow> string" where
  "renderMessage lib m msg =
     (case CommitModel.renderer m of
        None \<Rightarrow> msg
      | Some r \<Rightarrow> (case Render lib r msg of Inl e \<Rightarrow> msg | Inr out \<Rightarrow> out))"

definition submitForm :: "Lib \<Rightarrow> CommitModel \<Rightarrow> CommitModel \<times> Cmd" where
  "submitForm lib m =
     (let title = TrimSpace (textinput_Model.Value (CommitModel.textInput m)) in
      if title = [] then (m, CmdNil)
      else
        let body = TrimSpace (textarea_Model.Value (CommitModel.textArea m));
            m1 = (if body \<noteq> []
                  then m\<lparr>CommitModel.commitMsg := title @ ''\<newline>\<newline>'' @ body\<rparr>
                  else m\<lparr>CommitModel.commitMsg := title\<rparr>);
            m2 = m1\<lparr>CommitModel.renderedMsg := renderMessage lib m1 (CommitModel.commitMsg m1)\<rparr>
        in (m2\<lparr>CommitModel.state := commitStateConfirm\<rparr>, CmdNil))"

definition CommitModel_handleEnter :: "CommitModel \<Rightarrow> CommitModel \<times> Cmd" where
  "CommitModel_handleEnter m =
     (case CommitModel.state m of
        commitStateNoChanges \<Rightarrow>
          (m, CmdMsg (ReturnToMenuMsg ''No staged changes to commit'' ''info''))
      | commitStateError \<Rightarrow>
          (m, CmdMsg (ReturnToMenuMsg (''Error: '' @ fmt_v (CommitModel.err m)) ''error''))
      | _ \<Rightarrow> (m, CmdNil))"

text \<open>The part of \<open>CommitModel.Update\<close> after the type switch
  (\<open>// Update text inputs when in input state\<close>).\<close>

definition CommitModel_inputs :: "Lib \<Rightarrow> CommitModel \<Rightarrow> Msg \<Rightarrow> CommitModel \<times> Cmd" where
  "CommitModel_inputs lib m msg =
     (if CommitModel.state m = commitStateInput then
        (if textinput_Model.focus (CommitModel.textInput m)
         then (case textinput_Update lib (CommitModel.textInput m) msg of
                 (ti, cmd) \<Rightarrow> (m\<lparr>CommitModel.textInput := ti\<rparr>, cmd))
         else (case textarea_Update lib (CommitModel.textArea m) msg of
                 (ta, cmd) \<Rightarrow> (m\<lparr>CommitModel.textArea := ta\<rparr>, cmd)))
      else (m, CmdNil))"

text \<open>The \<open>"e", "E"\<close> case in the confirmation state: \<open>// Edit the message\<close>.\<close>

definition CommitModel_edit :: "Lib \<Rightarrow> CommitModel \<Rightarrow> CommitModel \<times> Cmd" where
  "CommitModel_edit lib m =
     (let m1 = m\<lparr>CommitModel.textInput :=
                   textinput_SetValue lib (CommitModel.textInput m)
                     (hd (Split1 (CommitModel.commitMsg m) CHR 0x0A))\<rparr>;
          parts = SplitN2 (CommitModel.commitMsg m1) ''\<newline>\<newline>'';
          m2 = (if length parts > 1
                then m1\<lparr>CommitModel.textArea :=
                          textarea_SetValue lib (CommitModel.textArea m1) (parts ! 1)\<rparr>
                else m1);
          m3 = m2\<lparr>CommitModel.textInput :=
                   (CommitModel.textInput m2)\<lparr>textinput_Model.focus := True\<rparr>\<rparr>
      in (m3\<lparr>CommitModel.state := commitStateInput\<rparr>, textinput_Blink))"

definition CommitModel_key :: "Lib \<Rightarrow> CommitModel \<Rightarrow> string \<Rightarrow> CommitModel \<times> Cmd" where
  "CommitModel_key lib m k =
     (if k = ''ctrl+c'' \<or> k = ''esc'' then (m, CmdMsg (ReturnToMenuMsg ''Cancelled'' ''info''))
      else if k = ''enter'' then
        (if CommitModel.state m = commitStateInput then submitForm lib m
         else CommitModel_handleEnter m)
      else if k = ''alt+enter'' then
        (if CommitModel.state m = commitStateInput
            \<and> textarea_Model.focus (CommitModel.textArea m)
         then (m\<lparr>CommitModel.textArea :=
                    textarea_InsertString lib (CommitModel.textArea m) ''\<newline>''\<rparr>, CmdNil)
         else CommitModel_inputs lib m (KeyMsg k))
      else if k = ''tab'' then
        (if CommitModel.state m = commitStateInput \<and> \<not> CommitModel.useAI m then
           (if textinput_Model.focus (CommitModel.textInput m)
            then CommitModel_inputs lib
                   (m\<lparr>CommitModel.textInput :=
                        (CommitModel.textInput m)\<lparr>textinput_Model.focus := False\<rparr>,
                      CommitModel.textArea :=
                        (CommitModel.textArea m)\<lparr>textarea_Model.focus := True\<rparr>\<rparr>) (KeyMsg k)
            else CommitModel_inputs lib
                   (m\<lparr>CommitModel.textArea :=
                        (CommitModel.textArea m)\<lparr>textarea_Model.focus := False\<rparr>,
                      CommitModel.textInput :=
                        (CommitModel.textInput m)\<lparr>textinput_Model.focus := True\<rparr>\<rparr>) (KeyMsg k))
         else CommitModel_inputs lib m (KeyMsg k))
      else if k = ''y'' \<or> k = ''Y'' then
        (if CommitModel.state m = commitStateConfirm
         then (m\<lparr>CommitModel.state := commitStateCommitting\<rparr>, doCommit (CommitModel.commitMsg m))
         else CommitModel_inputs lib m (KeyMsg k))
      else if k = ''n'' \<or> k = ''N'' then
        (if CommitModel.state m = commitStateConfirm
         then (m, CmdMsg (ReturnToMenuMsg ''Commit cancelled'' ''info''))
         else CommitModel_inputs lib m (KeyMsg k))
      else if k = ''e'' \<or> k = ''E'' then
        (if CommitModel.state m = commitStateConfirm then CommitModel_edit lib m
         else CommitModel_inputs lib m (KeyMsg k))
      else CommitModel_inputs lib m (KeyMsg k))"

definition CommitModel_Update :: "Lib \<Rightarrow> CommitModel \<Rightarrow> Msg \<Rightarrow> CommitModel \<times> Cmd" where
  "CommitModel_Update lib m msg =
     (case msg of
        KeyMsg k \<Rightarrow> CommitModel_key lib m k
      | spinner_TickMsg \<Rightarrow>
          (case spinner_Update lib (CommitModel.spinner m) msg of
             (sp, cmd) \<Rightarrow> (m\<lparr>CommitModel.spinner := sp\<rparr>, cmd))
      | commitReadyMsg d \<Rightarrow>
          (let m1 = m\<lparr>CommitModel.diff := d, CommitModel.ready := True\<rparr> in
           if CommitModel.useAI m1
           then (m1\<lparr>CommitModel.state := commitStateGenerating\<rparr>, generateMessage d)
           else (m1\<lparr>CommitModel.state := commitStateInput\<rparr>, textinput_Blink))
      | rendererMsg r \<Rightarrow> (m\<lparr>CommitModel.renderer := r\<rparr>, CmdNil)
      | commitNoChangesMsg \<Rightarrow> (m\<lparr>CommitModel.state := commitStateNoChanges\<rparr>, CmdNil)
      | commitGeneratedMsg g \<Rightarrow>
          (m\<lparr>CommitModel.commitMsg := g, CommitModel.renderedMsg := renderMessage lib m g,
             CommitModel.state := commitStateConfirm\<rparr>, CmdNil)
      | commitErrorMsg e \<Rightarrow>
          (m\<lparr>CommitModel.state := commitStateError, CommitModel.err := Some e\<rparr>, CmdNil)
      | commitDoneMsg \<Rightarrow>
          (m\<lparr>CommitModel.state := commitStateDone\<rparr>,
           CmdMsg (ReturnToMenuMsg ''Commit successful!'' ''success''))
      | _ \<Rightarrow> CommitModel_inputs lib m msg)"

section \<open>The menu\<close>

text \<open>
  The sub-model of the menu is a \<open>tea.Model\<close> interface value; it holds a pointer to the
  model of one of the flows.
\<close>

datatype SubModel =
    SubReset ResetModel
  | SubRollback RollbackModel
  | SubRelease ReleaseModel
  | SubPublish PublishModel
  | SubCommit CommitModel

definition SubModel_Update :: "Lib \<Rightarrow> SubModel \<Rightarrow> Msg \<Rightarrow> SubModel \<times> Cmd" where
  "SubModel_Update lib sm msg =
     (case sm of
        SubReset r \<Rightarrow> (case ResetModel_Update lib r msg of (r1, cmd) \<Rightarrow> (SubReset r1, cmd))
      | SubRollback r \<Rightarrow>
          (case RollbackModel_Update lib r msg of (r1, cmd) \<Rightarrow> (SubRollback r1, cmd))
      | SubRelease r \<Rightarrow>
          (case ReleaseModel_Update lib r msg of (r1, cmd) \<Rightarrow> (SubRelease r1, cmd))
      | SubPublish r \<Rightarrow>
          (case PublishModel_Update lib r msg of (r1, cmd) \<Rightarrow> (SubPublish r1, cmd))
      | SubCommit r \<Rightarrow>
          (case CommitModel_Update lib r msg of (r1, cmd) \<Rightarrow> (SubCommit r1, cmd)))"

record Model =
  list :: list_Model
  items :: "menuItem list"
  cfg :: Config
  status :: "Status option"
  spinner :: spinner_Model
  loading :: bool
  message :: string
  msgType :: string
  width :: int
  height :: int
  quitting :: bool
  subModel :: "SubModel option"
  inSubView :: bool

text \<open>The icons of \<open>styles.Icons\<close> that the menu shows (glyphs of three bytes each).\<close>

definition Icons_Add :: string where "Icons_Add = [CHR 0xEF, CHR 0x81, CHR 0x95]"
definition Icons_Commit :: string where "Icons_Commit = [CHR 0xEF, CHR 0x90, CHR 0x97]"
definition Icons_AI :: string where "Icons_AI = [CHR 0xEF, CHR 0x83, CHR 0xA7]"
definition Icons_Push :: string where "Icons_Push = [CHR 0xEF, CHR 0x90, CHR 0x83]"
definition Icons_Pull :: string where "Icons_Pull = [CHR 0xEF, CHR 0x90, CHR 0x84]"
definition Icons_Reset :: string where "Icons_Reset = [CHR 0xEF, CHR 0x83, CHR 0xA2]"
definition Icons_Publish :: string where "Icons_Publish = [CHR 0xEF, CHR 0x83, CHR 0xAE]"
definition Icons_Open :: string where "Icons_Open = [CHR 0xEF, CHR 0x82, CHR 0x8E]"
definition Icons_Lazygit :: string where "Icons_Lazygit = [CHR 0xEF, CHR 0x87, CHR 0x93]"
definition Icons_Branch :: string where "Icons_Branch = [CHR 0xEF, CHR 0x84, CHR 0xA6]"
definition Icons_Quit :: string where "Icons_Quit = [CHR 0xEF, CHR 0x80, CHR 0x91]"

definition item :: "string \<Rightarrow> string \<Rightarrow> string \<Rightarrow> string \<Rightarrow> Action \<Rightarrow> menuItem" where
  "item i t d k a = \<lparr>icon = i, title = t, desc = d, shortcut = k, action = a\<rparr>"

text \<open>The item list of \<open>NewModel\<close>.\<close>

definition menu_items :: "menuItem list" where
  "menu_items =
     [item Icons_Add ''Stage All'' ''git add .'' ''a'' ActionAdd,
      item Icons_Commit ''Commit'' ''Commit with message'' ''c'' ActionCommit,
      item Icons_AI ''AI Commit'' ''Generate commit message with AI'' ''i'' ActionAICommit,
      item Icons_Push ''Push'' ''Push to remote'' ''p'' ActionPush,
      item Icons_Pull ''Pull'' ''Pull from remote'' ''l'' ActionPull,
      item Icons_Reset ''Reset'' ''Reset changes (hard)'' ''r'' ActionReset,
      item Icons_Publish ''Publish'' ''Publish to GitHub'' ''u'' ActionPublish,
      item Icons_Open ''Open Repo'' ''Open repo in browser'' ''o'' ActionOpen,
      item Icons_Lazygit ''Lazygit'' ''Open lazygit'' ''g'' ActionLazygit,
      item Icons_Branch ''Branches'' ''View branches'' ''b'' ActionBranches,
      item Icons_Quit ''Quit'' ''Exit gitty'' ''q'' ActionQuit]"

definition NewModel :: "Config \<Rightarrow> Model" where
  "NewModel c =
     \<lparr>Model.list = \<lparr>Items = menu_items, cursor = 0\<rparr>, Model.items = menu_items,
      Model.cfg = c, Model.status = None, Model.spinner = 0, Model.loading = False,
      Model.message = [], Model.msgType = [], Model.width = 80, Model.height = 24,
      Model.quitting = False, Model.subModel = None, Model.inSubView = False\<rparr>"

definition Model_Init :: "Model \<Rightarrow> Cmd" where
  "Model_Init m = Batch [spinner_Tick, refreshStatus]"

text \<open>\<open>clearMessageAfter\<close>: a tick of three seconds that delivers \<open>clearMsgMsg{}\<close>.\<close>

definition clearMessageAfter :: Cmd where
  "clearMessageAfter = Tick 3 clearMsgMsg"

definition executeAction :: "Lib \<Rightarrow> Model \<Rightarrow> Action \<Rightarrow> Model \<times> Cmd" where
  "executeAction lib m a =
     (case a of
        ActionQuit \<Rightarrow> (m\<lparr>Model.quitting := True\<rparr>, Quit)
      | ActionAdd \<Rightarrow> (m\<lparr>Model.loading := True\<rparr>, AddAllCmd)
      | ActionPush \<Rightarrow> (m\<lparr>Model.loading := True\<rparr>, PushCmd)
      | ActionPull \<Rightarrow> (m\<lparr>Model.loading := True\<rparr>, PullCmd)
      | ActionReset \<Rightarrow>
          (case ResetModel_Init lib NewResetModel of
             (sm, cmd) \<Rightarrow> (m\<lparr>Model.inSubView := True, Model.subModel := Some (SubReset sm)\<rparr>, cmd))
      | ActionCommit \<Rightarrow>
          (case CommitModel_Init (NewCommitModel (Model.cfg m) False) of
             (sm, cmd) \<Rightarrow> (m\<lparr>Model.inSubView := True, Model.subModel := Some (SubCommit sm)\<rparr>, cmd))
      | ActionAICommit \<Rightarrow>
          (case CommitModel_Init (NewCommitModel (Model.cfg m) True) of
             (sm, cmd) \<Rightarrow> (m\<lparr>Model.inSubView := True, Model.subModel := Some (SubCommit sm)\<rparr>, cmd))
      | ActionPublish \<Rightarrow>
          (case PublishModel_Init lib (NewPublishModel lib (Model.cfg m)) of
             (sm, cmd) \<Rightarrow> (m\<lparr>Model.inSubView := True, Model.subModel := Some (SubPublish sm)\<rparr>, cmd))
      | ActionOpen \<Rightarrow> (m\<lparr>Model.loading := True\<rparr>, OpenCmd)
      | ActionLazygit \<Rightarrow> (m, ExecProcess [''lazygit''])
      | ActionBranches \<Rightarrow> (m\<lparr>Model.loading := True\<rparr>, BranchesCmd)
      | _ \<Rightarrow> (m, CmdNil))"

text \<open>The end of \<open>Model.Update\<close> (\<open>// Update list\<close>).\<close>

definition Model_list :: "Lib \<Rightarrow> Model \<Rightarrow> Msg \<Rightarrow> Model \<times> Cmd" where
  "Model_list lib m msg =
     (case list_Update lib (Model.list m) msg of (l, cmd) \<Rightarrow> (m\<lparr>Model.list := l\<rparr>, cmd))"

text \<open>The type switch of \<open>Model.Update\<close>, reached when no sub-view is shown.\<close>

definition Model_menu :: "Lib \<Rightarrow> Model \<Rightarrow> Msg \<Rightarrow> Model \<times> Cmd" where
  "Model_menu lib m msg =
     (case msg of
        KeyMsg k \<Rightarrow>
          if Model.loading m then (m, CmdNil)
          else if k = ''q'' \<or> k = ''ctrl+c'' then (m\<lparr>Model.quitting := True\<rparr>, Quit)
          else if k = ''enter'' \<or> k = '' '' then
            (case SelectedItem (Model.list m) of
               Some it \<Rightarrow> executeAction lib m (action it)
             | None \<Rightarrow> Model_list lib m msg)
          else
            (case find (\<lambda>it. k = shortcut it) (Model.items m) of
               Some it \<Rightarrow> executeAction lib m (action it)
             | None \<Rightarrow> Model_list lib m msg)
      | WindowSizeMsg w h \<Rightarrow> Model_list lib (m\<lparr>Model.width := w, Model.height := h\<rparr>) msg
      | spinner_TickMsg \<Rightarrow>
          (case spinner_Update lib (Model.spinner m) msg of
             (sp, cmd) \<Rightarrow> (m\<lparr>Model.spinner := sp\<rparr>, cmd))
      | statusMsg st e \<Rightarrow> Model_list lib (m\<lparr>Model.status := st, Model.loading := False\<rparr>) msg
      | actionCompleteMsg ok text \<Rightarrow>
          (m\<lparr>Model.loading := False, Model.message := text,
             Model.msgType := (if ok then ''success'' else ''error'')\<rparr>,
           Batch [refreshStatus, clearMessageAfter])
      | clearMsgMsg \<Rightarrow> Model_list lib (m\<lparr>Model.message := [], Model.msgType := []\<rparr>) msg
      | _ \<Rightarrow> Model_list lib m msg)"

definition Model_Update :: "Lib \<Rightarrow> Model \<Rightarrow> Msg \<Rightarrow> Model \<times> Cmd" where
  "Model_Update lib m msg =
     (case (if Model.inSubView m then Model.subModel m else None) of
        Some sm \<Rightarrow>
          (case SubModel_Update lib sm msg of
             (sm1, cmd) \<Rightarrow>
               (let m1 = m\<lparr>Model.subModel := Some sm1\<rparr> in
                case msg of
                  ReturnToMenuMsg text ty \<Rightarrow>
                    (let m2 = m1\<lparr>Model.inSubView := False, Model.subModel := None\<rparr>;
                         m3 = (if text \<noteq> []
                               then m2\<lparr>Model.message := text, Model.msgType := ty\<rparr> else m2)
                     in (m3, Batch [refreshStatus, clearMessageAfter]))
                | _ \<Rightarrow> (m1, cmd)))
      | None \<Rightarrow> Model_menu lib m msg)"

text \<open>The model after a sequence of messages, each handled by \<open>Model.Update\<close>.\<close>

definition Model_run :: "Lib \<Rightarrow> Model \<Rightarrow> Msg list \<Rightarrow> Model" where
  "Model_run lib m msgs = foldl (\<lambda>m1 msg. fst (Model_Update lib m1 msg)) m msgs"

section \<open>Sample surroundings\<close>

text \<open>
  Concrete libraries, processes, environments and models, on which the theorems below are
  run.  In \<open>lib_sample\<close> a confirmation form is completed by \<open>y\<close> (yes) and \<open>n\<close> (no);
  the release form answers \<open>enter\<close> with a command of its own and is completed by the
  message of that command (\<open>LibMsg 1\<close>), the publish form is completed by \<open>enter\<close>; a text
  widget appends the key it is given, and \<open>SetValue\<close> of a text input turns tabs and line
  breaks into spaces and cuts the text at \<open>CharLimit\<close>.
\<close>

definition lib_sample :: Lib where
  "lib_sample =
     \<lparr>list_Update = (\<lambda>l msg. (case msg of
                         KeyMsg k \<Rightarrow> if k = ''down'' then (l\<lparr>cursor := Suc (cursor l)\<rparr>, CmdNil)
                                     else if k = ''up'' then (l\<lparr>cursor := cursor l - 1\<rparr>, CmdNil)
                                     else (l, CmdNil)
                       | _ \<Rightarrow> (l, CmdNil))),
      spinner_Update = (\<lambda>sp msg. (Suc sp, spinner_Tick)),
      form_Init = (\<lambda>f. LibCmd 0),
      confirm_Update = (\<lambda>f c msg. (case msg of
                         KeyMsg k \<Rightarrow> if k = ''y'' then ((f\<lparr>State := StateCompleted\<rparr>, True), CmdNil)
                                     else if k = ''n'' then ((f\<lparr>State := StateCompleted\<rparr>, False), CmdNil)
                                     else ((f, c), CmdNil)
                       | _ \<Rightarrow> ((f, c), CmdNil))),
      release_Update = (\<lambda>f v msg. (case msg of
                         KeyMsg k \<Rightarrow> if k = ''enter'' then ((f, v), LibCmd 1) else ((f, v), CmdNil)
                       | LibMsg n \<Rightarrow> if n = 1 then ((f\<lparr>State := StateCompleted\<rparr>, v), CmdNil)
                                     else ((f, v), CmdNil)
                       | _ \<Rightarrow> ((f, v), CmdNil))),
      publish_Update = (\<lambda>f v msg. (case msg of
                         KeyMsg k \<Rightarrow> if k = ''enter'' then ((f\<lparr>State := StateCompleted\<rparr>, v), CmdNil)
                                     else ((f, v), CmdNil)
                       | _ \<Rightarrow> ((f, v), CmdNil))),
      textinput_Update = (\<lambda>ti msg. (case msg of
                         KeyMsg k \<Rightarrow> (ti\<lparr>textinput_Model.Value := textinput_Model.Value ti @ k\<rparr>, CmdNil)
                       | _ \<Rightarrow> (ti, CmdNil))),
      textarea_Update = (\<lambda>ta msg. (case msg of
                         KeyMsg k \<Rightarrow> (ta\<lparr>textarea_Model.Value := textarea_Model.Value ta @ k\<rparr>, CmdNil)
                       | _ \<Rightarrow> (ta, CmdNil))),
      textinput_SetValue = (\<lambda>ti t.
         ti\<lparr>textinput_Model.Value :=
              (if 0 < CharLimit ti then take (nat (CharLimit ti)) else id)
                (map (\<lambda>c. if c = CHR 0x09 \<or> c = CHR 0x0A \<or> c = CHR 0x0D then CHR '' '' else c) t)\<rparr>),
      textarea_SetValue = (\<lambda>ta t. ta\<lparr>textarea_Model.Value := t\<rparr>),
      textarea_InsertString = (\<lambda>ta t. ta\<lparr>textarea_Model.Value := textarea_Model.Value ta @ t\<rparr>),
      Render = (\<lambda>r t. Inr t),
      GetRepoName = ''gitty''\<rparr>"

definition proc_sample :: "bool \<Rightarrow> bool \<Rightarrow> nat Proc" where
  "proc_sample tag_ok push_ok w argv =
     (if argv ! 1 = ''tag''
      then (if tag_ok then (Suc w, [], None)
            else (Suc w, ''fatal: tag already exists'', Some ''exit status 128''))
      else (if push_ok then (Suc w, [], None)
            else (Suc w, ''rejected'', Some ''exit status 1'')))"

definition env_sample :: "ReadResult \<Rightarrow> ConfigEnv" where
  "env_sample r =
     \<lparr>ReadFile = r,
      Unmarshal = (\<lambda>d c. if d = ''{'' then Inl ''yaml: did not find expected node content''
                           else Inr c),
      Marshal = (\<lambda>c. Inr (''editor: '' @ Editor (Git c) @ ''; provider: '' @ Provider (AI c))),
      Getenv = (\<lambda>k. if k = ''OPENAI_API_KEY'' then ''sk-test'' else []),
      MkdirAll = None,
      WriteFile = (\<lambda>d. None)\<rparr>"

definition reset_working :: ResetModel where
  "reset_working = fst (ResetModel_Update lib_sample
                          (fst (ResetModel_Init lib_sample NewResetModel)) (KeyMsg ''y''))"

definition menu_resetting :: Model where
  "menu_resetting = Model_run lib_sample (NewModel DefaultConfig) [KeyMsg ''r'', KeyMsg ''y'']"

definition release_ready :: ReleaseModel where
  "release_ready =
     (fst (ReleaseModel_Init lib_sample NewReleaseModel))
       \<lparr>ReleaseModel.tagName := ''v1.0.0'', ReleaseModel.confirm := True\<rparr>"

definition commit_generated :: "string \<Rightarrow> CommitModel" where
  "commit_generated g =
     fst (CommitModel_Update lib_sample (NewCommitModel DefaultConfig True) (commitGeneratedMsg g))"

definition commit_input :: "string \<Rightarrow> string \<Rightarrow> CommitModel" where
  "commit_input t b =
     (NewCommitModel DefaultConfig False)
       \<lparr>CommitModel.textInput :=
          (CommitModel.textInput (NewCommitModel DefaultConfig False))\<lparr>textinput_Model.Value := t\<rparr>,
        CommitModel.textArea :=
          (CommitModel.textArea (NewCommitModel DefaultConfig False))\<lparr>textarea_Model.Value := b\<rparr>\<rparr>"

text \<open>
  The messages that leave the type switch of \<open>ReleaseModel.Update\<close> and reach the step of
  the form: every message but the cancel keys, the spinner tick and the two completion
  messages of \<open>doRelease\<close>.
\<close>

fun reaches_release_form :: "Msg \<Rightarrow> bool" where
  "reaches_release_form (KeyMsg k) = (k \<noteq> ''ctrl+c'' \<and> k \<noteq> ''esc'')"
| "reaches_release_form spinner_TickMsg = False"
| "reaches_release_form releaseDoneMsg = False"
| "reaches_release_form (releaseErrorMsg e) = False"
| "reaches_release_form msg = True"

text \<open>
  The flows that no action of the menu starts.
\<close>

fun rollback_or_release :: "SubModel \<Rightarrow> bool" where
  "rollback_or_release (SubRollback r) = True"
| "rollback_or_release (SubRelease r) = True"
| "rollback_or_release sm = False"

definition no_rollback_release :: "Model \<Rightarrow> bool" where
  "no_rollback_release m =
     (case Model.subModel m of None \<Rightarrow> True | Some sm \<Rightarrow> \<not> rollback_or_release sm)"

section \<open>Facts about the string functions\<close>

lemma Split1_nonempty: "Split1 s c \<noteq> []"
  by (induction s) (auto split: list.splits)

lemma hd_Split1: "hd (Split1 s c) = takeWhile (\<lambda>x. x \<noteq> c) s"
proof (induction s)
  case Nil
  show ?case by simp
next
  case (Cons a s)
  then show ?case
    using Split1_nonempty [of s c] by (cases "Split1 s c") auto
qed

lemma Index_Some_split:
  "Index s sub = Some i \<Longrightarrow> s = take i s @ sub @ drop (i + length sub) s"
proof (induction s arbitrary: i)
  case Nil
  then show ?case by (simp split: if_splits)
next
  case (Cons c cs)
  show ?case
  proof (cases "prefix sub (c # cs)")
    case True
    then obtain r where r: "c # cs = sub @ r" by (auto simp: prefix_def)
    from True Cons.prems have "i = 0" by simp
    with r show ?thesis by simp
  next
    case False
    with Cons.prems obtain j where j: "Index cs sub = Some j" "i = Suc j" by auto
    from Cons.IH [OF j(1)] j(2) show ?thesis by simp
  qed
qed

lemma Index_first:
  "Index s sub = Some i \<Longrightarrow> j < i \<Longrightarrow> \<not> prefix sub (drop j s)"
proof (induction s arbitrary: i j)
  case Nil
  then show ?case by (simp split: if_splits)
next
  case (Cons c cs)
  show ?case
  proof (cases "prefix sub (c # cs)")
    case True
    with Cons.prems show ?thesis by simp
  next
    case False
    with Cons.prems obtain k where k: "Index cs sub = Some k" "i = Suc k" by auto
    show ?thesis
    proof (cases j)
      case 0
      with False show ?thesis by simp
    next
      case (Suc j')
      with Cons.prems k have "j' < k" by simp
      from Cons.IH [OF k(1) this] Suc show ?thesis by simp
    qed
  qed
qed

lemma Index_None: "Index s sub = None \<Longrightarrow> \<not> prefix sub (drop j s)"
proof (induction s arbitrary: j)
  case Nil
  then show ?case by (simp split: if_splits)
next
  case (Cons c cs)
  then show ?case by (cases j) (auto split: if_splits)
qed

lemma Index_blank_line:
  "c \<notin> set t \<Longrightarrow> Index (t @ c # c # b) [c, c] = Some (length t)"
  by (induction t) auto

lemma SplitN2_blank_line:
  "c \<notin> set t \<Longrightarrow> SplitN2 (t @ c # c # b) [c, c] = [t, b]"
  by (simp add: SplitN2_def Index_blank_line)

lemma takeWhile_title: "c \<notin> set t \<Longrightarrow> takeWhile (\<lambda>x. x \<noteq> c) (t @ c # r) = t"
  by (induction t) auto

lemma trimFront_suffix: "suffix (trimFront rv s) s"
  by (induction rv s rule: trimFront.induct) (auto simp: suffix_Cons suffix_ConsI)

lemma trimFront_hd: "trimFront rv s = a # r \<Longrightarrow> \<not> isSpace1 a"
  by (induction rv s rule: trimFront.induct) (auto split: if_splits)

lemma TrimSpace_ends:
  assumes "TrimSpace s \<noteq> []"
  shows "\<not> isSpace1 (hd (TrimSpace s)) \<and> \<not> isSpace1 (last (TrimSpace s))"
proof -
  let ?l = "trimFront False s"
  let ?r = "trimFront True (rev ?l)"
  have ts: "TrimSpace s = rev ?r"
    by (simp add: TrimSpace_def TrimLeftSpace_def TrimRightSpace_def)
  with assms have ne: "?r \<noteq> []" by simp
  then obtain a r where ar: "?r = a # r" by (cases ?r) auto
  from trimFront_hd [OF ar] have "\<not> isSpace1 (hd ?r)" by (simp add: ar)
  with ne ts have lst: "\<not> isSpace1 (last (TrimSpace s))" by (simp add: last_rev)
  from trimFront_suffix [of True "rev ?l"] obtain p where p: "rev ?l = p @ ?r"
    by (auto simp: suffix_def)
  then have l: "?l = rev ?r @ rev p" by (metis rev_append rev_rev_ident)
  from ne have "rev ?r \<noteq> []" by simp
  then obtain b q where bq: "rev ?r = b # q" by (cases "rev ?r") auto
  with l have "?l = b # (q @ rev p)" by simp
  from trimFront_hd [OF this] bq ts have "\<not> isSpace1 (hd (TrimSpace s))" by simp
  with lst show ?thesis by simp
qed

lemma TrimSpace_fix_bug: "TrimSpace ''fix bug'' = ''fix bug''" by code_simp

lemma TrimSpace_detail: "TrimSpace ''- detail'' = ''- detail''" by code_simp

lemma TrimSpace_Nil: "TrimSpace [] = []" by code_simp

section \<open>The status records\<close>

lemma GetStatus_line_fields:
  "StagedFiles (GetStatus_line st (x # y # z # rest)) =
     StagedFiles st @ (if x \<noteq> CHR '' '' \<and> x \<noteq> CHR ''?'' then [TrimSpace rest] else [])"
  "ModifiedFiles (GetStatus_line st (x # y # z # rest)) =
     ModifiedFiles st @ (if y \<noteq> CHR '' '' \<and> y \<noteq> CHR ''?'' then [TrimSpace rest] else [])"
  "UntrackedFiles (GetStatus_line st (x # y # z # rest)) =
     UntrackedFiles st @ (if x = CHR ''?'' \<and> y = CHR ''?'' then [TrimSpace rest] else [])"
  "HasStaged (GetStatus_line st (x # y # z # rest)) =
     (HasStaged st \<or> (x \<noteq> CHR '' '' \<and> x \<noteq> CHR ''?''))"
  "HasUnstaged (GetStatus_line st (x # y # z # rest)) =
     (HasUnstaged st \<or> (y \<noteq> CHR '' '' \<and> y \<noteq> CHR ''?''))"
  "HasUntracked (GetStatus_line st (x # y # z # rest)) =
     (HasUntracked st \<or> (x = CHR ''?'' \<and> y = CHR ''?''))"
  by (simp_all add: GetStatus_line_def Let_def)

lemma GetStatus_line_short: "length line < 3 \<Longrightarrow> GetStatus_line st line = st"
  by (simp add: GetStatus_line_def)

lemma GetStatus_porcelain_sample:
  "StagedFiles (GetStatus_porcelain Status_zero
      ''MM a.txt\<newline>?? b.txt\<newline> M c\<newline>A  d\<newline>'') = [''a.txt'', ''d'']"
  "ModifiedFiles (GetStatus_porcelain Status_zero
      ''MM a.txt\<newline>?? b.txt\<newline> M c\<newline>A  d\<newline>'') = [''a.txt'', ''c'']"
  "UntrackedFiles (GetStatus_porcelain Status_zero
      ''MM a.txt\<newline>?? b.txt\<newline> M c\<newline>A  d\<newline>'') = [''b.txt'']"
  by code_simp+

lemma GetStatus_loop_files:
  "StagedFiles (foldl GetStatus_line st ls) =
     StagedFiles st @ map (\<lambda>l. TrimSpace (drop 3 l))
       (filter (\<lambda>l. 3 \<le> length l \<and> l ! 0 \<noteq> CHR '' '' \<and> l ! 0 \<noteq> CHR ''?'') ls)"
  "ModifiedFiles (foldl GetStatus_line st ls) =
     ModifiedFiles st @ map (\<lambda>l. TrimSpace (drop 3 l))
       (filter (\<lambda>l. 3 \<le> length l \<and> l ! 1 \<noteq> CHR '' '' \<and> l ! 1 \<noteq> CHR ''?'') ls)"
  "UntrackedFiles (foldl GetStatus_line st ls) =
     UntrackedFiles st @ map (\<lambda>l. TrimSpace (drop 3 l))
       (filter (\<lambda>l. 3 \<le> length l \<and> l ! 0 = CHR ''?'' \<and> l ! 1 = CHR ''?'') ls)"
  by (induction ls arbitrary: st; simp add: GetStatus_line_def Let_def)+

lemma GetStatus_loop_flags:
  "HasStaged (foldl GetStatus_line st ls) =
     (HasStaged st \<or> filter (\<lambda>l. 3 \<le> length l \<and> l ! 0 \<noteq> CHR '' '' \<and> l ! 0 \<noteq> CHR ''?'') ls \<noteq> [])"
  "HasUnstaged (foldl GetStatus_line st ls) =
     (HasUnstaged st \<or> filter (\<lambda>l. 3 \<le> length l \<and> l ! 1 \<noteq> CHR '' '' \<and> l ! 1 \<noteq> CHR ''?'') ls \<noteq> [])"
  "HasUntracked (foldl GetStatus_line st ls) =
     (HasUntracked st \<or> filter (\<lambda>l. 3 \<le> length l \<and> l ! 0 = CHR ''?'' \<and> l ! 1 = CHR ''?'') ls \<noteq> [])"
  by (induction ls arbitrary: st; simp add: GetStatus_line_def Let_def)+

text \<open>
  Claim C5.  For every status record with index-state character \<open>x\<close> and worktree-state
  character \<open>y\<close> (a line of at least three bytes), read after any records before it (into
  any status \<open>st\<close>): the file is added to the staged files exactly when \<open>x\<close> is neither a
  space nor \<open>?\<close>, to the modified files exactly when \<open>y\<close> is neither a space nor \<open>?\<close>, and
  to the untracked files exactly when both are \<open>?\<close>; the three lists and flags are changed
  in no other way.  So over a whole output the staged, modified and untracked files are
  the files of the records of each kind, in order, whatever the other records are.  Read
  into a fresh status, a record is untracked and nothing else exactly when both characters
  are \<open>?\<close>.  A record can be staged and modified at once (both characters neither space
  nor \<open>?\<close>, as in \<open>MM a.txt\<close>).
\<close>

theorem GetStatus_classification:
  "StagedFiles (GetStatus_line st (x # y # z # rest)) =
      StagedFiles st @ (if x \<noteq> CHR '' '' \<and> x \<noteq> CHR ''?'' then [TrimSpace rest] else [])
   \<and> ModifiedFiles (GetStatus_line st (x # y # z # rest)) =
      ModifiedFiles st @ (if y \<noteq> CHR '' '' \<and> y \<noteq> CHR ''?'' then [TrimSpace rest] else [])
   \<and> UntrackedFiles (GetStatus_line st (x # y # z # rest)) =
      UntrackedFiles st @ (if x = CHR ''?'' \<and> y = CHR ''?'' then [TrimSpace rest] else [])
   \<and> HasStaged (GetStatus_line st (x # y # z # rest)) =
      (HasStaged st \<or> (x \<noteq> CHR '' '' \<and> x \<noteq> CHR ''?''))
   \<and> HasUnstaged (GetStatus_line st (x # y # z # rest)) =
      (HasUnstaged st \<or> (y \<noteq> CHR '' '' \<and> y \<noteq> CHR ''?''))
   \<and> HasUntracked (GetStatus_line st (x # y # z # rest)) =
      (HasUntracked st \<or> (x = CHR ''?'' \<and> y = CHR ''?''))
   \<and> StagedFiles (GetStatus_porcelain st output) =
      StagedFiles st @ map (\<lambda>l. TrimSpace (drop 3 l))
        (filter (\<lambda>l. 3 \<le> length l \<and> l ! 0 \<noteq> CHR '' '' \<and> l ! 0 \<noteq> CHR ''?'')
           (Split1 output CHR 0x0A))
   \<and> ModifiedFiles (GetStatus_porcelain st output) =
      ModifiedFiles st @ map (\<lambda>l. TrimSpace (drop 3 l))
        (filter (\<lambda>l. 3 \<le> length l \<and> l ! 1 \<noteq> CHR '' '' \<and> l ! 1 \<noteq> CHR ''?'')
           (Split1 output CHR 0x0A))
   \<and> UntrackedFiles (GetStatus_porcelain st output) =
      UntrackedFiles st @ map (\<lambda>l. TrimSpace (drop 3 l))
        (filter (\<lambda>l. 3 \<le> length l \<and> l ! 0 = CHR ''?'' \<and> l ! 1 = CHR ''?'')
           (Split1 output CHR 0x0A))
   \<and> HasStaged (GetStatus_porcelain st output) =
      (HasStaged st
       \<or> filter (\<lambda>l. 3 \<le> length l \<and> l ! 0 \<noteq> CHR '' '' \<and> l ! 0 \<noteq> CHR ''?'')
            (Split1 output CHR 0x0A) \<noteq> [])
   \<and> HasUnstaged (GetStatus_porcelain st output) =
      (HasUnstaged st
       \<or> filter (\<lambda>l. 3 \<le> length l \<and> l ! 1 \<noteq> CHR '' '' \<and> l ! 1 \<noteq> CHR ''?'')
            (Split1 output CHR 0x0A) \<noteq> [])
   \<and> HasUntracked (GetStatus_porcelain st output) =
      (HasUntracked st
       \<or> filter (\<lambda>l. 3 \<le> length l \<and> l ! 0 = CHR ''?'' \<and> l ! 1 = CHR ''?'')
            (Split1 output CHR 0x0A) \<noteq> [])
   \<and> StagedFiles (GetStatus_line Status_zero (x # y # z # rest)) =
      (if x \<noteq> CHR '' '' \<and> x \<noteq> CHR ''?'' then [TrimSpace rest] else [])
   \<and> HasStaged (GetStatus_line Status_zero (x # y # z # rest)) =
      (x \<noteq> CHR '' '' \<and> x \<noteq> CHR ''?'')
   \<and> ModifiedFiles (GetStatus_line Status_zero (x # y # z # rest)) =
      (if y \<noteq> CHR '' '' \<and> y \<noteq> CHR ''?'' then [TrimSpace rest] else [])
   \<and> HasUnstaged (GetStatus_line Status_zero (x # y # z # rest)) =
      (y \<noteq> CHR '' '' \<and> y \<noteq> CHR ''?'')
   \<and> UntrackedFiles (GetStatus_line Status_zero (x # y # z # rest)) =
      (if x = CHR ''?'' \<and> y = CHR ''?'' then [TrimSpace rest] else [])
   \<and> HasUntracked (GetStatus_line Status_zero (x # y # z # rest)) =
      (x = CHR ''?'' \<and> y = CHR ''?'')
   \<and> ((HasUntracked (GetStatus_line Status_zero (x # y # z # rest))
        \<and> \<not> HasStaged (GetStatus_line Status_zero (x # y # z # rest))
        \<and> \<not> HasUnstaged (GetStatus_line Status_zero (x # y # z # rest))) =
       (x = CHR ''?'' \<and> y = CHR ''?''))
   \<and> ((HasStaged (GetStatus_line Status_zero (x # y # z # rest))
        \<and> HasUnstaged (GetStatus_line Status_zero (x # y # z # rest))) =
       (x \<noteq> CHR '' '' \<and> x \<noteq> CHR ''?'' \<and> y \<noteq> CHR '' '' \<and> y \<noteq> CHR ''?''))
   \<and> HasStaged (GetStatus_line Status_zero ''MM a.txt'')
   \<and> HasUnstaged (GetStatus_line Status_zero ''MM a.txt'')
   \<and> \<not> HasUntracked (GetStatus_line Status_zero ''MM a.txt'')
   \<and> StagedFiles (GetStatus_porcelain Status_zero
         ''MM a.txt\<newline>?? b.txt\<newline> M c\<newline>A  d\<newline>'') = [''a.txt'', ''d'']
   \<and> ModifiedFiles (GetStatus_porcelain Status_zero
         ''MM a.txt\<newline>?? b.txt\<newline> M c\<newline>A  d\<newline>'') = [''a.txt'', ''c'']
   \<and> UntrackedFiles (GetStatus_porcelain Status_zero
         ''MM a.txt\<newline>?? b.txt\<newline> M c\<newline>A  d\<newline>'') = [''b.txt'']"
  by (simp add: GetStatus_porcelain_sample)
    (auto simp add: GetStatus_line_fields Status_zero_def GetStatus_porcelain_def
      GetStatus_loop_files GetStatus_loop_flags)

section \<open>The reset flow: the completion of the command\<close>

lemma reset_working_state: "ResetModel.state reset_working = resetStateWorking"
  by (simp add: reset_working_def ResetModel_Update_def ResetModel_form_def ResetModel_Init_def
      NewResetModel_def huh_NewForm_def lib_sample_def Let_def)

lemma ResetModel_ignores_completion:
  "ResetModel.state m \<noteq> resetStateConfirm \<Longrightarrow>
     ResetModel_Update lib m resetDoneMsg = (m, CmdNil)
     \<and> ResetModel_Update lib m (resetErrorMsg e) = (m, CmdNil)"
  by (simp add: ResetModel_Update_def ResetModel_form_def split: option.splits)

lemma RollbackModel_done:
  "RollbackModel_Update lib m rollbackDoneMsg =
     (m\<lparr>RollbackModel.state := rollbackStateDone\<rparr>,
      CmdMsg (ReturnToMenuMsg ''Rollback successful'' ''success''))"
  by (simp add: RollbackModel_Update_def)

lemma menu_resetting_fields:
  "Model.inSubView menu_resetting"
  "Model.subModel menu_resetting = Some (SubReset reset_working)"
  "Model.message menu_resetting = []"
  by (simp_all add: menu_resetting_def reset_working_def Model_run_def Model_Update_def
      Model_menu_def NewModel_def menu_items_def item_def executeAction_def SubModel_Update_def
      ResetModel_Init_def split: prod.splits)

text \<open>
  Claim C1, on the code.  The reset flow is started and confirmed: the model is in the
  working state and \<open>doReset\<close> is dispatched; where \<open>git reset --hard\<close> succeeds, \<open>doReset\<close>
  returns \<open>resetDoneMsg\<close>.  \<open>ResetModel.Update\<close> has no case for \<open>resetDoneMsg\<close> or
  \<open>resetErrorMsg\<close>: on either it returns the model unchanged, still working, and no command,
  so no \<open>ReturnToMenuMsg\<close> is emitted and the menu stays in the sub-view.  (The rollback
  flow, \<open>RollbackModel_done\<close>, does reach its done state and returns to the menu.)
\<close>

theorem reset_completion_dropped:
  "snd (ResetModel_Update lib_sample (fst (ResetModel_Init lib_sample NewResetModel)) (KeyMsg ''y''))
     = doReset
   \<and> ResetModel.state reset_working = resetStateWorking
   \<and> run_doReset (\<lambda>w argv. (w, [], None)) ((), [])
       = (resetDoneMsg, ((), [[''git'', ''reset'', ''--hard'']]))
   \<and> ResetModel_Update lib_sample reset_working resetDoneMsg = (reset_working, CmdNil)
   \<and> ResetModel_Update lib_sample reset_working (resetErrorMsg ''exit status 128'')
       = (reset_working, CmdNil)
   \<and> Model_Update lib_sample menu_resetting resetDoneMsg = (menu_resetting, CmdNil)
   \<and> Model.inSubView (fst (Model_Update lib_sample menu_resetting resetDoneMsg))"
proof -
  have a: "snd (ResetModel_Update lib_sample (fst (ResetModel_Init lib_sample NewResetModel))
             (KeyMsg ''y'')) = doReset"
    by (simp add: ResetModel_Update_def ResetModel_form_def ResetModel_Init_def
        NewResetModel_def huh_NewForm_def lib_sample_def Let_def)
  have b: "run_doReset (\<lambda>w argv. (w, [], None)) ((), [])
       = (resetDoneMsg, ((), [[''git'', ''reset'', ''--hard'']]))"
    by (simp add: run_doReset_def Reset_def exec_Command_def)
  have c: "ResetModel_Update lib_sample reset_working resetDoneMsg = (reset_working, CmdNil)"
    "ResetModel_Update lib_sample reset_working (resetErrorMsg ''exit status 128'')
       = (reset_working, CmdNil)"
    using ResetModel_ignores_completion [of reset_working lib_sample] reset_working_state
    by simp_all
  have d: "Model_Update lib_sample menu_resetting resetDoneMsg = (menu_resetting, CmdNil)"
    using menu_resetting_fields(2) [symmetric]
    by (simp add: Model_Update_def menu_resetting_fields(1,2) SubModel_Update_def c)
  from a b c d reset_working_state menu_resetting_fields(1) show ?thesis by simp
qed

section \<open>The cancel key\<close>

lemma Model_Update_return:
  "Model.inSubView m \<Longrightarrow> Model.subModel m = Some sm \<Longrightarrow>
   Model_Update lib m (ReturnToMenuMsg text ty) =
     ((if text \<noteq> [] then m\<lparr>Model.inSubView := False, Model.subModel := None,
                              Model.message := text, Model.msgType := ty\<rparr>
       else m\<lparr>Model.inSubView := False, Model.subModel := None\<rparr>),
      Batch [refreshStatus, Tick 3 clearMsgMsg])"
  by (simp add: Model_Update_def Let_def clearMessageAfter_def split: prod.splits)

text \<open>
  Claim C2 as stated fails on the code: escape in the reset flow returns to the menu with
  an empty message, not with an info message "Reset cancelled", and escape in the commit
  flow surfaces the info message "Cancelled" instead of nothing.
\<close>

theorem cancel_key_counterexample:
  "snd (ResetModel_Update lib_sample (fst (ResetModel_Init lib_sample NewResetModel)) (KeyMsg ''esc''))
     = CmdMsg (ReturnToMenuMsg [] [])
   \<and> snd (CommitModel_Update lib_sample (NewCommitModel DefaultConfig False) (KeyMsg ''esc''))
     = CmdMsg (ReturnToMenuMsg ''Cancelled'' ''info'')"
  by (simp add: ResetModel_Update_def CommitModel_Update_def CommitModel_key_def)

text \<open>
  Claim C2, amended.  The cancel key (escape or ctrl+c), in any state of a flow, emits one
  \<open>ReturnToMenuMsg\<close>: with an empty message in the reset, rollback, release and publish
  flows (a silent cancel), and with the info message "Cancelled" in the commit flow.  On
  that message the menu leaves the sub-view, and an empty message leaves the status message
  of the menu as it was.
\<close>

theorem cancel_key:
  assumes "k = ''esc'' \<or> k = ''ctrl+c''"
  shows "ResetModel_Update lib m1 (KeyMsg k) = (m1, CmdMsg (ReturnToMenuMsg [] []))
   \<and> RollbackModel_Update lib m2 (KeyMsg k) = (m2, CmdMsg (ReturnToMenuMsg [] []))
   \<and> ReleaseModel_Update lib m3 (KeyMsg k) = (m3, CmdMsg (ReturnToMenuMsg [] []))
   \<and> PublishModel_Update lib m4 (KeyMsg k) = (m4, CmdMsg (ReturnToMenuMsg [] []))
   \<and> CommitModel_Update lib m5 (KeyMsg k) = (m5, CmdMsg (ReturnToMenuMsg ''Cancelled'' ''info''))
   \<and> (Model.inSubView m \<and> Model.subModel m = Some sm \<longrightarrow>
        fst (Model_Update lib m (ReturnToMenuMsg [] []))
          = m\<lparr>Model.inSubView := False, Model.subModel := None\<rparr>
        \<and> fst (Model_Update lib m (ReturnToMenuMsg ''Cancelled'' ''info''))
          = m\<lparr>Model.inSubView := False, Model.subModel := None,
              Model.message := ''Cancelled'', Model.msgType := ''info''\<rparr>)"
  using assms
  by (elim disjE; simp add: ResetModel_Update_def RollbackModel_Update_def ReleaseModel_Update_def
      PublishModel_Update_def CommitModel_Update_def CommitModel_key_def Model_Update_return)

theorem cancel_key_witness:
  "ResetModel_Update lib_sample NewResetModel (KeyMsg ''esc'')
     = (NewResetModel, CmdMsg (ReturnToMenuMsg [] []))
   \<and> RollbackModel_Update lib_sample NewRollbackModel (KeyMsg ''esc'')
     = (NewRollbackModel, CmdMsg (ReturnToMenuMsg [] []))
   \<and> ReleaseModel_Update lib_sample NewReleaseModel (KeyMsg ''esc'')
     = (NewReleaseModel, CmdMsg (ReturnToMenuMsg [] []))
   \<and> PublishModel_Update lib_sample (NewPublishModel lib_sample DefaultConfig) (KeyMsg ''esc'')
     = (NewPublishModel lib_sample DefaultConfig, CmdMsg (ReturnToMenuMsg [] []))
   \<and> CommitModel_Update lib_sample (NewCommitModel DefaultConfig False) (KeyMsg ''esc'')
     = (NewCommitModel DefaultConfig False, CmdMsg (ReturnToMenuMsg ''Cancelled'' ''info''))
   \<and> fst (Model_Update lib_sample menu_resetting (ReturnToMenuMsg [] []))
     = menu_resetting\<lparr>Model.inSubView := False, Model.subModel := None\<rparr>"
  using cancel_key [of "''esc''" lib_sample NewResetModel NewRollbackModel NewReleaseModel
      "NewPublishModel lib_sample DefaultConfig" "NewCommitModel DefaultConfig False"
      menu_resetting "SubReset reset_working"]
  by (simp add: menu_resetting_fields)

section \<open>The expiry of the status message\<close>

text \<open>
  Claim C3 as stated fails on the code: the first message schedules its clear (a tick of
  three seconds that delivers \<open>clearMsgMsg\<close>, which carries nothing), a second message
  replaces the first, and the clear of the first, arriving then, erases the second.
\<close>

theorem stale_clear_counterexample:
  "snd (Model_Update lib_sample (NewModel DefaultConfig) (actionCompleteMsg True ''All files staged''))
     = Batch [refreshStatus, Tick 3 clearMsgMsg]
   \<and> Model.message (Model_run lib_sample (NewModel DefaultConfig)
        [actionCompleteMsg True ''All files staged'', actionCompleteMsg True ''Pushed to remote''])
     = ''Pushed to remote''
   \<and> Model.message (Model_run lib_sample (NewModel DefaultConfig)
        [actionCompleteMsg True ''All files staged'', actionCompleteMsg True ''Pushed to remote'',
         clearMsgMsg])
     = []"
  by (simp add: Model_run_def Model_Update_def Model_menu_def Model_list_def NewModel_def
      clearMessageAfter_def lib_sample_def)

lemma Model_Update_handed_on:
  assumes "Model.inSubView m" and "Model.subModel m = Some sm"
  shows "Model_Update lib m clearMsgMsg =
           (m\<lparr>Model.subModel := Some (fst (SubModel_Update lib sm clearMsgMsg))\<rparr>,
            snd (SubModel_Update lib sm clearMsgMsg))"
    and "Model_Update lib m (actionCompleteMsg ok text) =
           (m\<lparr>Model.subModel := Some (fst (SubModel_Update lib sm (actionCompleteMsg ok text)))\<rparr>,
            snd (SubModel_Update lib sm (actionCompleteMsg ok text)))"
  using assms by (simp_all add: Model_Update_def Let_def split: prod.splits)

text \<open>
  Claim C3, amended.  The clear of a status message (\<open>clearMsgMsg\<close>) carries no generation
  or time stamp: when it arrives while no flow is active, the menu clears the message and
  its type, whichever message is shown, so the clear scheduled for an earlier message does
  erase a later one.  The clear is scheduled, as a tick of three seconds, when the menu
  handles the completion of a direct action (no flow active) and on every return from a
  flow; with no flow active when it arrives, the message is then cleared.  While a flow is
  active, a clear and a completion of a direct action are handed to the flow: the menu
  keeps its message and returns the command of the flow, no tick of its own.
\<close>

theorem message_expiry:
  "(\<not> (Model.inSubView m \<and> Model.subModel m \<noteq> None) \<longrightarrow>
      Model_Update lib m (actionCompleteMsg ok text) =
           (m\<lparr>Model.loading := False, Model.message := text,
              Model.msgType := (if ok then ''success'' else ''error'')\<rparr>,
            Batch [refreshStatus, Tick 3 clearMsgMsg])
      \<and> Model.message (fst (Model_Update lib m clearMsgMsg)) = []
      \<and> Model.msgType (fst (Model_Update lib m clearMsgMsg)) = [])
   \<and> (Model.inSubView m \<and> Model.subModel m = Some sm \<longrightarrow>
        snd (Model_Update lib m (ReturnToMenuMsg text ty)) = Batch [refreshStatus, Tick 3 clearMsgMsg]
        \<and> Model.message (fst (Model_Update lib m (ReturnToMenuMsg text ty)))
            = (if text \<noteq> [] then text else Model.message m)
        \<and> Model.message (fst (Model_Update lib m clearMsgMsg)) = Model.message m
        \<and> Model.msgType (fst (Model_Update lib m clearMsgMsg)) = Model.msgType m
        \<and> Model_Update lib m clearMsgMsg =
             (m\<lparr>Model.subModel := Some (fst (SubModel_Update lib sm clearMsgMsg))\<rparr>,
              snd (SubModel_Update lib sm clearMsgMsg))
        \<and> Model_Update lib m (actionCompleteMsg ok text) =
             (m\<lparr>Model.subModel := Some (fst (SubModel_Update lib sm (actionCompleteMsg ok text)))\<rparr>,
              snd (SubModel_Update lib sm (actionCompleteMsg ok text)))
        \<and> Model.message (fst (Model_Update lib m (actionCompleteMsg ok text))) = Model.message m)"
proof -
  have a: "Model_Update lib m (actionCompleteMsg ok text) =
           (m\<lparr>Model.loading := False, Model.message := text,
              Model.msgType := (if ok then ''success'' else ''error'')\<rparr>,
            Batch [refreshStatus, Tick 3 clearMsgMsg])
      \<and> Model.message (fst (Model_Update lib m clearMsgMsg)) = []
      \<and> Model.msgType (fst (Model_Update lib m clearMsgMsg)) = []"
    if "\<not> (Model.inSubView m \<and> Model.subModel m \<noteq> None)"
    using that
    by (auto simp add: Model_Update_def Model_menu_def Model_list_def clearMessageAfter_def
        split: prod.splits option.splits)
  have b: "snd (Model_Update lib m (ReturnToMenuMsg text ty)) = Batch [refreshStatus, Tick 3 clearMsgMsg]
        \<and> Model.message (fst (Model_Update lib m (ReturnToMenuMsg text ty)))
            = (if text \<noteq> [] then text else Model.message m)
        \<and> Model.message (fst (Model_Update lib m clearMsgMsg)) = Model.message m
        \<and> Model.msgType (fst (Model_Update lib m clearMsgMsg)) = Model.msgType m
        \<and> Model_Update lib m clearMsgMsg =
             (m\<lparr>Model.subModel := Some (fst (SubModel_Update lib sm clearMsgMsg))\<rparr>,
              snd (SubModel_Update lib sm clearMsgMsg))
        \<and> Model_Update lib m (actionCompleteMsg ok text) =
             (m\<lparr>Model.subModel := Some (fst (SubModel_Update lib sm (actionCompleteMsg ok text)))\<rparr>,
              snd (SubModel_Update lib sm (actionCompleteMsg ok text)))
        \<and> Model.message (fst (Model_Update lib m (actionCompleteMsg ok text))) = Model.message m"
    if "Model.inSubView m" "Model.subModel m = Some sm"
    using that by (simp add: Model_Update_return Model_Update_handed_on)
  from a b show ?thesis by blast
qed

theorem message_expiry_witness:
  "Model_Update lib_sample (NewModel DefaultConfig) (actionCompleteMsg True ''Pushed to remote'') =
           ((NewModel DefaultConfig)\<lparr>Model.loading := False, Model.message := ''Pushed to remote'',
              Model.msgType := ''success''\<rparr>,
            Batch [refreshStatus, Tick 3 clearMsgMsg])
   \<and> Model.message (fst (Model_Update lib_sample
        ((NewModel DefaultConfig)\<lparr>Model.message := ''Pushed to remote'',
                                   Model.msgType := ''success''\<rparr>)
        clearMsgMsg)) = []
   \<and> snd (Model_Update lib_sample menu_resetting (ReturnToMenuMsg ''Reset cancelled'' ''info''))
       = Batch [refreshStatus, Tick 3 clearMsgMsg]
   \<and> Model.message (fst (Model_Update lib_sample menu_resetting
        (actionCompleteMsg True ''Pushed to remote''))) = []"
  using message_expiry [of "NewModel DefaultConfig" lib_sample True "''Pushed to remote''"]
    message_expiry [of "(NewModel DefaultConfig)\<lparr>Model.message := ''Pushed to remote'',
        Model.msgType := ''success''\<rparr>" lib_sample]
    message_expiry [of menu_resetting lib_sample True "''Reset cancelled''" "SubReset reset_working"
        "''info''"]
    message_expiry [of menu_resetting lib_sample True "''Pushed to remote''"
        "SubReset reset_working" "''info''"]
  by (simp add: NewModel_def menu_resetting_fields)

section \<open>The quit key\<close>

text \<open>
  Claim C4 as stated fails on the code: after \<open>p\<close> (push) the menu is loading with no flow
  active, and \<open>q\<close> then changes nothing and returns no command.
\<close>

theorem quit_while_loading_counterexample:
  "Model.loading (Model_run lib_sample (NewModel DefaultConfig) [KeyMsg ''p''])
   \<and> \<not> Model.inSubView (Model_run lib_sample (NewModel DefaultConfig) [KeyMsg ''p''])
   \<and> Model_Update lib_sample (Model_run lib_sample (NewModel DefaultConfig) [KeyMsg ''p'']) (KeyMsg ''q'')
       = (Model_run lib_sample (NewModel DefaultConfig) [KeyMsg ''p''], CmdNil)
   \<and> \<not> Model.quitting (Model_run lib_sample (NewModel DefaultConfig) [KeyMsg ''p'', KeyMsg ''q''])"
  by (simp add: Model_run_def Model_Update_def Model_menu_def NewModel_def menu_items_def item_def
      executeAction_def)

text \<open>
  Claim C4, amended.  In every state of the menu in which no flow is active and the
  \<open>loading\<close> flag is not set, the quit key (\<open>q\<close> or ctrl+c) sets \<open>quitting\<close> and returns
  \<open>tea.Quit\<close>.  While the \<open>loading\<close> flag is set (and no flow is active) the quit key does
  not win: the menu returns before it looks at the key, so for every key the model is
  unchanged and no command is returned.
\<close>

theorem quit_key:
  assumes "\<not> (Model.inSubView m \<and> Model.subModel m \<noteq> None)"
  shows "(k = ''q'' \<or> k = ''ctrl+c'' \<longrightarrow>
           Model_Update lib m (KeyMsg k) =
             (if Model.loading m then (m, CmdNil) else (m\<lparr>Model.quitting := True\<rparr>, Quit)))
     \<and> (Model.loading m \<longrightarrow> Model_Update lib m (KeyMsg j) = (m, CmdNil))"
  using assms
  by (auto simp add: Model_Update_def Model_menu_def split: option.splits)

theorem quit_key_witness:
  "Model_Update lib_sample (NewModel DefaultConfig) (KeyMsg ''q'') =
     ((NewModel DefaultConfig)\<lparr>Model.quitting := True\<rparr>, Quit)
   \<and> Model_Update lib_sample (NewModel DefaultConfig) (KeyMsg ''ctrl+c'') =
     ((NewModel DefaultConfig)\<lparr>Model.quitting := True\<rparr>, Quit)
   \<and> Model_Update lib_sample ((NewModel DefaultConfig)\<lparr>Model.loading := True\<rparr>) (KeyMsg ''a'') =
     ((NewModel DefaultConfig)\<lparr>Model.loading := True\<rparr>, CmdNil)
   \<and> Model_Update lib_sample ((NewModel DefaultConfig)\<lparr>Model.loading := True\<rparr>) (KeyMsg ''q'') =
     ((NewModel DefaultConfig)\<lparr>Model.loading := True\<rparr>, CmdNil)"
  using quit_key [of "NewModel DefaultConfig" "''q''" lib_sample "''a''"]
    quit_key [of "NewModel DefaultConfig" "''ctrl+c''" lib_sample "''a''"]
    quit_key [of "(NewModel DefaultConfig)\<lparr>Model.loading := True\<rparr>" "''q''" lib_sample "''a''"]
  by (simp add: NewModel_def)

section \<open>The commit message\<close>

lemma CommitModel_edit_fields:
  "CommitModel.textInput (fst (CommitModel_edit lib m))
     = (textinput_SetValue lib (CommitModel.textInput m)
          (takeWhile (\<lambda>c. c \<noteq> CHR 0x0A) (CommitModel.commitMsg m)))
         \<lparr>textinput_Model.focus := True\<rparr>"
  "CommitModel.textArea (fst (CommitModel_edit lib m))
     = (case Index (CommitModel.commitMsg m) ''\<newline>\<newline>'' of
          None \<Rightarrow> CommitModel.textArea m
        | Some i \<Rightarrow> textarea_SetValue lib (CommitModel.textArea m)
                     (drop (i + 2) (CommitModel.commitMsg m)))"
  "CommitModel.state (fst (CommitModel_edit lib m)) = commitStateInput"
  "snd (CommitModel_edit lib m) = textinput_Blink"
  by (simp_all add: CommitModel_edit_def Let_def hd_Split1 SplitN2_def split: option.splits)

lemma CommitModel_Update_edit:
  "CommitModel.state m = commitStateConfirm \<Longrightarrow> k = ''e'' \<or> k = ''E'' \<Longrightarrow>
   CommitModel_Update lib m (KeyMsg k) = CommitModel_edit lib m"
  by (elim disjE; simp add: CommitModel_Update_def CommitModel_key_def)

lemma Index_no_blank_line: "c \<notin> set t \<Longrightarrow> Index t [c, c] = None"
  by (induction t) auto

lemma CommitModel_edit_composed:
  assumes "CommitModel.commitMsg m = t @ ''\<newline>\<newline>'' @ b" and "CHR 0x0A \<notin> set t"
  shows "SplitN2 (CommitModel.commitMsg m) ''\<newline>\<newline>'' = [t, b]"
    and "CommitModel.textInput (fst (CommitModel_edit lib m))
           = (textinput_SetValue lib (CommitModel.textInput m) t)\<lparr>textinput_Model.focus := True\<rparr>"
    and "CommitModel.textArea (fst (CommitModel_edit lib m))
           = textarea_SetValue lib (CommitModel.textArea m) b"
  using assms Index_blank_line [of "CHR 0x0A" t b] SplitN2_blank_line [of "CHR 0x0A" t b]
    takeWhile_title [of "CHR 0x0A" t "CHR 0x0A # b"]
  by (simp_all add: CommitModel_edit_fields)

lemma CommitModel_edit_title_only:
  assumes "CHR 0x0A \<notin> set (CommitModel.commitMsg m)"
  shows "CommitModel.textInput (fst (CommitModel_edit lib m))
           = (textinput_SetValue lib (CommitModel.textInput m) (CommitModel.commitMsg m))
               \<lparr>textinput_Model.focus := True\<rparr>"
    and "CommitModel.textArea (fst (CommitModel_edit lib m)) = CommitModel.textArea m"
proof -
  have all: "takeWhile (\<lambda>c. c \<noteq> CHR 0x0A) (CommitModel.commitMsg m) = CommitModel.commitMsg m"
    using assms by (auto simp add: takeWhile_eq_all_conv)
  show "CommitModel.textInput (fst (CommitModel_edit lib m))
           = (textinput_SetValue lib (CommitModel.textInput m) (CommitModel.commitMsg m))
               \<lparr>textinput_Model.focus := True\<rparr>"
    by (simp add: CommitModel_edit_fields all)
  show "CommitModel.textArea (fst (CommitModel_edit lib m)) = CommitModel.textArea m"
    using Index_no_blank_line [OF assms] by (simp add: CommitModel_edit_fields)
qed

lemma submitForm_fields:
  assumes "TrimSpace (textinput_Model.Value (CommitModel.textInput m)) \<noteq> []"
  shows "CommitModel.state (fst (submitForm lib m)) = commitStateConfirm"
    and "CommitModel.textInput (fst (submitForm lib m)) = CommitModel.textInput m"
    and "CommitModel.textArea (fst (submitForm lib m)) = CommitModel.textArea m"
    and "CommitModel.commitMsg (fst (submitForm lib m)) =
           (if TrimSpace (textarea_Model.Value (CommitModel.textArea m)) = []
            then TrimSpace (textinput_Model.Value (CommitModel.textInput m))
            else TrimSpace (textinput_Model.Value (CommitModel.textInput m)) @ ''\<newline>\<newline>''
                 @ TrimSpace (textarea_Model.Value (CommitModel.textArea m)))"
  using assms by (simp_all add: submitForm_def Let_def)

lemma commit_generated_fields:
  "CommitModel.state (commit_generated g) = commitStateConfirm"
  "CommitModel.commitMsg (commit_generated g) = g"
  "textarea_Model.Value (CommitModel.textArea (commit_generated g)) = []"
  by (simp_all add: commit_generated_def CommitModel_Update_def NewCommitModel_def textarea_New_def)

lemma commit_input_fields:
  "textinput_Model.Value (CommitModel.textInput (commit_input t b)) = t"
  "textarea_Model.Value (CommitModel.textArea (commit_input t b)) = b"
  "CommitModel.state (commit_input t b) = commitStateInput"
  by (simp_all add: commit_input_def NewCommitModel_def)

lemma submitForm_commitMsg:
  "CommitModel.commitMsg (fst (submitForm lib m)) =
     (let title = TrimSpace (textinput_Model.Value (CommitModel.textInput m));
          body = TrimSpace (textarea_Model.Value (CommitModel.textArea m))
      in if title = [] then CommitModel.commitMsg m
         else if body = [] then title
         else title @ ''\<newline>\<newline>'' @ body)"
  by (simp add: submitForm_def Let_def)

text \<open>
  The edit action on a message that was not composed from the two fields: a generated
  message whose first blank line comes after a line break gives the title field its first
  line only.
\<close>

lemma edit_generated_first_line:
  "CommitModel.state (commit_generated ''feat: a\<newline>- b\<newline>\<newline>- c'') = commitStateConfirm
   \<and> CommitModel.textInput (fst (CommitModel_Update lib
         (commit_generated ''feat: a\<newline>- b\<newline>\<newline>- c'') (KeyMsg ''e'')))
       = (textinput_SetValue lib
            (CommitModel.textInput (commit_generated ''feat: a\<newline>- b\<newline>\<newline>- c'')) ''feat: a'')
           \<lparr>textinput_Model.focus := True\<rparr>
   \<and> SplitN2 ''feat: a\<newline>- b\<newline>\<newline>- c'' ''\<newline>\<newline>'' = [''feat: a\<newline>- b'', ''- c'']"
  by (simp add: commit_generated_fields CommitModel_Update_edit CommitModel_edit_fields SplitN2_def)

text \<open>
  Claim C6.  A message is composed by \<open>submitForm\<close> from the text of the title input, which
  is one line (trimmed, not empty, no line break), and the text of the body.  From the
  confirmation step of such a message, the edit action calls \<open>SetValue\<close> of the title
  field with the title and, when there is a body, \<open>SetValue\<close> of the body field with the
  body; with no body the message has no blank line and the body field is left as it is.
  It focuses the title and goes back to the input state.  In terms of the message alone:
  when the message in the confirmation step is a one-line title, a blank line and a rest,
  the title is everything before the first blank-line boundary and the rest everything
  after it, and these are the two texts that the fields receive; so editing \<open>fix bug\<close>,
  empty line, \<open>- detail\<close> gives the title field \<open>fix bug\<close> and the body field \<open>- detail\<close>.
\<close>

theorem edit_repopulates:
  assumes "k = ''e'' \<or> k = ''E''"
  shows
    "(TrimSpace (textinput_Model.Value (CommitModel.textInput m0)) \<noteq> []
       \<and> CHR 0x0A \<notin> set (TrimSpace (textinput_Model.Value (CommitModel.textInput m0)))
      \<longrightarrow> CommitModel.state (fst (submitForm lib m0)) = commitStateConfirm
          \<and> CommitModel.textInput
               (fst (CommitModel_Update lib (fst (submitForm lib m0)) (KeyMsg k)))
             = (textinput_SetValue lib (CommitModel.textInput m0)
                  (TrimSpace (textinput_Model.Value (CommitModel.textInput m0))))
                 \<lparr>textinput_Model.focus := True\<rparr>
          \<and> CommitModel.textArea
               (fst (CommitModel_Update lib (fst (submitForm lib m0)) (KeyMsg k)))
             = (if TrimSpace (textarea_Model.Value (CommitModel.textArea m0)) = []
                then CommitModel.textArea m0
                else textarea_SetValue lib (CommitModel.textArea m0)
                       (TrimSpace (textarea_Model.Value (CommitModel.textArea m0))))
          \<and> CommitModel.state
               (fst (CommitModel_Update lib (fst (submitForm lib m0)) (KeyMsg k)))
             = commitStateInput)
     \<and> (CommitModel.state m = commitStateConfirm
         \<and> CommitModel.commitMsg m = t @ ''\<newline>\<newline>'' @ b \<and> CHR 0x0A \<notin> set t
      \<longrightarrow> SplitN2 (CommitModel.commitMsg m) ''\<newline>\<newline>'' = [t, b]
          \<and> CommitModel.textInput (fst (CommitModel_Update lib m (KeyMsg k)))
             = (textinput_SetValue lib (CommitModel.textInput m) t)
                 \<lparr>textinput_Model.focus := True\<rparr>
          \<and> CommitModel.textArea (fst (CommitModel_Update lib m (KeyMsg k)))
             = textarea_SetValue lib (CommitModel.textArea m) b
          \<and> CommitModel.state (fst (CommitModel_Update lib m (KeyMsg k))) = commitStateInput)"
proof -
  let ?title = "TrimSpace (textinput_Model.Value (CommitModel.textInput m0))"
  let ?body = "TrimSpace (textarea_Model.Value (CommitModel.textArea m0))"
  let ?m1 = "fst (submitForm lib m0)"
  have composed: "CommitModel.state ?m1 = commitStateConfirm
      \<and> CommitModel.textInput (fst (CommitModel_Update lib ?m1 (KeyMsg k)))
         = (textinput_SetValue lib (CommitModel.textInput m0) ?title)
             \<lparr>textinput_Model.focus := True\<rparr>
      \<and> CommitModel.textArea (fst (CommitModel_Update lib ?m1 (KeyMsg k)))
         = (if ?body = [] then CommitModel.textArea m0
            else textarea_SetValue lib (CommitModel.textArea m0) ?body)
      \<and> CommitModel.state (fst (CommitModel_Update lib ?m1 (KeyMsg k))) = commitStateInput"
    if ne: "?title \<noteq> []" and one: "CHR 0x0A \<notin> set ?title"
  proof -
    note sf = submitForm_fields [OF ne, of lib]
    have upd: "CommitModel_Update lib ?m1 (KeyMsg k) = CommitModel_edit lib ?m1"
      using sf(1) assms by (rule CommitModel_Update_edit)
    show ?thesis
    proof (cases "?body = []")
      case True
      then have msg: "CommitModel.commitMsg ?m1 = ?title" using sf(4) by simp
      with one have "CHR 0x0A \<notin> set (CommitModel.commitMsg ?m1)" by simp
      from CommitModel_edit_title_only [OF this, of lib] True msg sf show ?thesis
        unfolding upd by (simp add: CommitModel_edit_fields)
    next
      case False
      then have msg: "CommitModel.commitMsg ?m1 = ?title @ ''\<newline>\<newline>'' @ ?body"
        using sf(4) by simp
      from CommitModel_edit_composed(2,3) [OF msg one, of lib] False sf show ?thesis
        unfolding upd by (simp add: CommitModel_edit_fields)
    qed
  qed
  have shaped: "SplitN2 (CommitModel.commitMsg m) ''\<newline>\<newline>'' = [t, b]
      \<and> CommitModel.textInput (fst (CommitModel_Update lib m (KeyMsg k)))
         = (textinput_SetValue lib (CommitModel.textInput m) t)\<lparr>textinput_Model.focus := True\<rparr>
      \<and> CommitModel.textArea (fst (CommitModel_Update lib m (KeyMsg k)))
         = textarea_SetValue lib (CommitModel.textArea m) b
      \<and> CommitModel.state (fst (CommitModel_Update lib m (KeyMsg k))) = commitStateInput"
    if st: "CommitModel.state m = commitStateConfirm"
      and msg: "CommitModel.commitMsg m = t @ ''\<newline>\<newline>'' @ b" and one: "CHR 0x0A \<notin> set t"
  proof -
    have upd: "CommitModel_Update lib m (KeyMsg k) = CommitModel_edit lib m"
      using st assms by (rule CommitModel_Update_edit)
    from CommitModel_edit_composed [OF msg one] show ?thesis
      unfolding upd by (simp add: CommitModel_edit_fields)
  qed
  from composed shaped show ?thesis by blast
qed

lemma lib_sample_SetValue:
  "textinput_Model.Value (textinput_SetValue lib_sample
      (CommitModel.textInput (commit_input t0 b0)) ''fix bug'') = ''fix bug''"
  "textinput_Model.Value (textinput_SetValue lib_sample
      (CommitModel.textInput (commit_generated g)) ''fix bug'') = ''fix bug''"
  "textarea_Model.Value (textarea_SetValue lib_sample ta b) = b"
  by (simp_all add: lib_sample_def commit_input_def commit_generated_def NewCommitModel_def
      CommitModel_Update_def)

theorem edit_repopulates_witness:
  "textinput_Model.Value (CommitModel.textInput (fst (CommitModel_Update lib_sample
      (fst (submitForm lib_sample (commit_input ''fix bug'' ''- detail''))) (KeyMsg ''e''))))
     = ''fix bug''
   \<and> textarea_Model.Value (CommitModel.textArea (fst (CommitModel_Update lib_sample
      (fst (submitForm lib_sample (commit_input ''fix bug'' ''- detail''))) (KeyMsg ''e''))))
     = ''- detail''
   \<and> textinput_Model.Value (CommitModel.textInput (fst (CommitModel_Update lib_sample
      (commit_generated ''fix bug\<newline>\<newline>- detail'') (KeyMsg ''e'')))) = ''fix bug''
   \<and> textarea_Model.Value (CommitModel.textArea (fst (CommitModel_Update lib_sample
      (commit_generated ''fix bug\<newline>\<newline>- detail'') (KeyMsg ''e'')))) = ''- detail''"
  using edit_repopulates [where k = "''e''" and ?m0.0 = "commit_input ''fix bug'' ''- detail''"
      and lib = lib_sample and m = "commit_generated ''fix bug\<newline>\<newline>- detail''"
      and t = "''fix bug''" and b = "''- detail''"]
  by (simp add: commit_input_fields commit_generated_fields TrimSpace_fix_bug TrimSpace_detail
      lib_sample_SetValue)

text \<open>
  Claim C9.  \<open>submitForm\<close> trims title and body; an empty title changes nothing (the title
  is required); otherwise the message is the title alone when the body is empty, and the
  title, one blank line and the body when it is not (the title does not end and the body
  does not start with a line break, so the blank line is the only one at the joint), and
  the flow goes to the confirmation step.  Title \<open>fix bug\<close> and body \<open>- detail\<close> give
  exactly \<open>fix bug\<close>, empty line, \<open>- detail\<close>; with an empty body, exactly \<open>fix bug\<close>.
\<close>

theorem compose_commit_message:
  "CommitModel.commitMsg (fst (submitForm lib m)) =
     (if TrimSpace (textinput_Model.Value (CommitModel.textInput m)) = []
      then CommitModel.commitMsg m
      else if TrimSpace (textarea_Model.Value (CommitModel.textArea m)) = []
      then TrimSpace (textinput_Model.Value (CommitModel.textInput m))
      else TrimSpace (textinput_Model.Value (CommitModel.textInput m)) @ ''\<newline>\<newline>''
           @ TrimSpace (textarea_Model.Value (CommitModel.textArea m)))
   \<and> (TrimSpace (textinput_Model.Value (CommitModel.textInput m)) = []
        \<longrightarrow> submitForm lib m = (m, CmdNil))
   \<and> (TrimSpace (textinput_Model.Value (CommitModel.textInput m)) \<noteq> []
        \<longrightarrow> CommitModel.state (fst (submitForm lib m)) = commitStateConfirm
            \<and> last (TrimSpace (textinput_Model.Value (CommitModel.textInput m))) \<noteq> CHR 0x0A)
   \<and> (TrimSpace (textarea_Model.Value (CommitModel.textArea m)) \<noteq> []
        \<longrightarrow> hd (TrimSpace (textarea_Model.Value (CommitModel.textArea m))) \<noteq> CHR 0x0A)
   \<and> CommitModel_Update lib (commit_input ''fix bug'' ''- detail'') (KeyMsg ''enter'')
       = submitForm lib (commit_input ''fix bug'' ''- detail'')
   \<and> CommitModel.commitMsg (fst (submitForm lib (commit_input ''fix bug'' ''- detail'')))
       = ''fix bug\<newline>\<newline>- detail''
   \<and> CommitModel.commitMsg (fst (submitForm lib (commit_input ''fix bug'' [])))
       = ''fix bug''"
proof -
  have e: "\<not> isSpace1 c \<Longrightarrow> c \<noteq> CHR 0x0A" for c by (auto simp: isSpace1_def)
  show ?thesis
    using TrimSpace_ends [of "textinput_Model.Value (CommitModel.textInput m)"]
      TrimSpace_ends [of "textarea_Model.Value (CommitModel.textArea m)"] e
    by (auto simp add: submitForm_commitMsg Let_def commit_input_fields TrimSpace_fix_bug
        TrimSpace_detail TrimSpace_Nil CommitModel_Update_def CommitModel_key_def submitForm_def)
qed

theorem compose_commit_message_witness:
  "submitForm lib_sample (commit_input ''   '' ''- detail'') = (commit_input ''   '' ''- detail'', CmdNil)
   \<and> CommitModel.state (fst (submitForm lib_sample (commit_input ''fix bug'' ''- detail'')))
        = commitStateConfirm
   \<and> CommitModel.commitMsg (fst (submitForm lib_sample (commit_input '' fix bug  '' ''\<newline>- detail\<newline>'')))
        = ''fix bug\<newline>\<newline>- detail''"
  using compose_commit_message [of lib_sample "commit_input ''   '' ''- detail''"]
    compose_commit_message [of lib_sample "commit_input ''fix bug'' ''- detail''"]
    compose_commit_message [of lib_sample "commit_input '' fix bug  '' ''\<newline>- detail\<newline>''"]
  apply (simp only: commit_input_fields)
  apply code_simp
  done

section \<open>The release flow\<close>

lemma run_doRelease_cases:
  "run_doRelease proc name tmsg (w, tr) =
     (case proc w (if tmsg = [] then [''git'', ''tag'', name]
                   else [''git'', ''tag'', ''-a'', name, ''-m'', tmsg]) of
        (w1, out, Some e) \<Rightarrow>
          (releaseErrorMsg (''failed to create tag: '' @ out @ '': '' @ e),
           (w1, tr @ [if tmsg = [] then [''git'', ''tag'', name]
                       else [''git'', ''tag'', ''-a'', name, ''-m'', tmsg]]))
      | (w1, out, None) \<Rightarrow>
          (case proc w1 [''git'', ''push'', ''--tags''] of
             (w2, out2, Some e2) \<Rightarrow>
               (releaseErrorMsg (''failed to push tags: '' @ e2),
                (w2, tr @ [if tmsg = [] then [''git'', ''tag'', name]
                            else [''git'', ''tag'', ''-a'', name, ''-m'', tmsg],
                            [''git'', ''push'', ''--tags'']]))
           | (w2, out2, None) \<Rightarrow>
               (releaseDoneMsg,
                (w2, tr @ [if tmsg = [] then [''git'', ''tag'', name]
                            else [''git'', ''tag'', ''-a'', name, ''-m'', tmsg],
                            [''git'', ''push'', ''--tags'']]))))"
  by (simp add: run_doRelease_def TagAnnotated_def PushTags_def exec_Command_def
      split: prod.splits option.splits)

lemma ReleaseModel_Update_form:
  assumes "ReleaseModel.state m = releaseStateForm" and "ReleaseModel.form m = Some f"
    and "reaches_release_form msg"
    and "release_Update lib f (ReleaseModel.tagName m, ReleaseModel.message m, ReleaseModel.confirm m)
           msg = ((f1, t1, g1, c1), cmd)"
  shows "ReleaseModel_Update lib m msg =
           (if State f1 = StateCompleted then
              (if c1 then
                 (m\<lparr>ReleaseModel.form := Some f1, ReleaseModel.tagName := t1,
                    ReleaseModel.message := g1, ReleaseModel.confirm := c1,
                    ReleaseModel.state := releaseStateWorking\<rparr>, doRelease t1 g1)
               else
                 (m\<lparr>ReleaseModel.form := Some f1, ReleaseModel.tagName := t1,
                    ReleaseModel.message := g1, ReleaseModel.confirm := c1\<rparr>,
                  CmdMsg (ReturnToMenuMsg ''Release cancelled'' ''info'')))
            else
              (m\<lparr>ReleaseModel.form := Some f1, ReleaseModel.tagName := t1,
                 ReleaseModel.message := g1, ReleaseModel.confirm := c1\<rparr>, cmd))"
  using assms
  by (cases msg) (simp_all add: ReleaseModel_Update_def ReleaseModel_form_def Let_def)

lemma release_ready_fields:
  "ReleaseModel.state release_ready = releaseStateForm"
  "ReleaseModel.form release_ready = Some huh_NewForm"
  "ReleaseModel.tagName release_ready = ''v1.0.0''"
  "ReleaseModel.message release_ready = []"
  "ReleaseModel.confirm release_ready"
  by (simp_all add: release_ready_def ReleaseModel_Init_def NewReleaseModel_def)

lemma lib_sample_release_step:
  "release_Update lib_sample f v (KeyMsg ''enter'') = ((f, v), LibCmd 1)"
  "release_Update lib_sample f v (LibMsg (Suc 0)) = ((f\<lparr>State := StateCompleted\<rparr>, v), CmdNil)"
  by (simp_all add: lib_sample_def)

text \<open>
  Claim C7.  Every message that reaches the release form is handed to it, whatever its kind
  (a key or a message of the form itself); when the form is completed by that step with
  the confirmation set, the flow goes to the working state and starts \<open>doRelease\<close> with the
  tag name and the message of the form, and with the confirmation not set it returns to
  the menu and starts nothing.  The first program of \<open>doRelease\<close> is
  \<open>git tag -a name -m message\<close> for a message and \<open>git tag name\<close> for none.  When that
  fails, nothing else is run and the error starts with \<open>failed to create tag: \<close>; when it
  succeeds, \<open>git push --tags\<close> is run next, and its failure gives an error that starts
  with \<open>failed to push tags: \<close>; the two errors are never equal.  The error is kept in the
  model, in the error state.
\<close>

theorem release_tag_then_push:
  "(ReleaseModel.state m = releaseStateForm \<and> ReleaseModel.form m = Some f
      \<and> reaches_release_form msg
      \<and> release_Update lib f
           (ReleaseModel.tagName m, ReleaseModel.message m, ReleaseModel.confirm m) msg
          = ((f1, t1, g1, c1), cmd)
    \<longrightarrow> ReleaseModel_Update lib m msg =
           (if State f1 = StateCompleted then
              (if c1 then
                 (m\<lparr>ReleaseModel.form := Some f1, ReleaseModel.tagName := t1,
                    ReleaseModel.message := g1, ReleaseModel.confirm := c1,
                    ReleaseModel.state := releaseStateWorking\<rparr>, doRelease t1 g1)
               else
                 (m\<lparr>ReleaseModel.form := Some f1, ReleaseModel.tagName := t1,
                    ReleaseModel.message := g1, ReleaseModel.confirm := c1\<rparr>,
                  CmdMsg (ReturnToMenuMsg ''Release cancelled'' ''info'')))
            else
              (m\<lparr>ReleaseModel.form := Some f1, ReleaseModel.tagName := t1,
                 ReleaseModel.message := g1, ReleaseModel.confirm := c1\<rparr>, cmd)))
   \<and> reaches_release_form (LibMsg n)
   \<and> reaches_release_form (KeyMsg ''enter'')
   \<and> (tmsg \<noteq> [] \<longrightarrow>
        hd (snd (snd (run_doRelease proc name tmsg (w, []))))
          = [''git'', ''tag'', ''-a'', name, ''-m'', tmsg])
   \<and> (tmsg = [] \<longrightarrow>
        hd (snd (snd (run_doRelease proc name tmsg (w, [])))) = [''git'', ''tag'', name])
   \<and> (proc w (hd (snd (snd (run_doRelease proc name tmsg (w, []))))) = (w1, out, Some e) \<longrightarrow>
        run_doRelease proc name tmsg (w, [])
          = (releaseErrorMsg (''failed to create tag: '' @ out @ '': '' @ e),
             (w1, [hd (snd (snd (run_doRelease proc name tmsg (w, []))))])))
   \<and> (proc w (hd (snd (snd (run_doRelease proc name tmsg (w, []))))) = (w1, out, None)
        \<and> proc w1 [''git'', ''push'', ''--tags''] = (w2, out2, Some e2) \<longrightarrow>
        run_doRelease proc name tmsg (w, [])
          = (releaseErrorMsg (''failed to push tags: '' @ e2),
             (w2, [hd (snd (snd (run_doRelease proc name tmsg (w, [])))),
                   [''git'', ''push'', ''--tags'']])))
   \<and> (proc w (hd (snd (snd (run_doRelease proc name tmsg (w, []))))) = (w1, out, None)
        \<and> proc w1 [''git'', ''push'', ''--tags''] = (w2, out2, None) \<longrightarrow>
        run_doRelease proc name tmsg (w, [])
          = (releaseDoneMsg,
             (w2, [hd (snd (snd (run_doRelease proc name tmsg (w, [])))),
                   [''git'', ''push'', ''--tags'']])))
   \<and> ''failed to create tag: '' @ a \<noteq> ''failed to push tags: '' @ b
   \<and> ReleaseModel_Update lib m (releaseErrorMsg x)
       = (m\<lparr>ReleaseModel.state := releaseStateError, ReleaseModel.err := Some x\<rparr>, CmdNil)"
proof -
  let ?tag = "if tmsg = [] then [''git'', ''tag'', name]
              else [''git'', ''tag'', ''-a'', name, ''-m'', tmsg]"
  have hd_log: "hd (snd (snd (run_doRelease proc name tmsg (w, [])))) = ?tag"
    by (simp add: run_doRelease_cases split: prod.splits option.splits)
  have c1: "ReleaseModel.state m = releaseStateForm \<and> ReleaseModel.form m = Some f
      \<and> reaches_release_form msg
      \<and> release_Update lib f
           (ReleaseModel.tagName m, ReleaseModel.message m, ReleaseModel.confirm m) msg
          = ((f1, t1, g1, c1), cmd)
    \<longrightarrow> ReleaseModel_Update lib m msg =
           (if State f1 = StateCompleted then
              (if c1 then
                 (m\<lparr>ReleaseModel.form := Some f1, ReleaseModel.tagName := t1,
                    ReleaseModel.message := g1, ReleaseModel.confirm := c1,
                    ReleaseModel.state := releaseStateWorking\<rparr>, doRelease t1 g1)
               else
                 (m\<lparr>ReleaseModel.form := Some f1, ReleaseModel.tagName := t1,
                    ReleaseModel.message := g1, ReleaseModel.confirm := c1\<rparr>,
                  CmdMsg (ReturnToMenuMsg ''Release cancelled'' ''info'')))
            else
              (m\<lparr>ReleaseModel.form := Some f1, ReleaseModel.tagName := t1,
                 ReleaseModel.message := g1, ReleaseModel.confirm := c1\<rparr>, cmd))"
    using ReleaseModel_Update_form [of m f msg lib f1 t1 g1 c1 cmd] by blast
  have c4: "proc w ?tag = (w1, out, Some e) \<longrightarrow> run_doRelease proc name tmsg (w, [])
          = (releaseErrorMsg (''failed to create tag: '' @ out @ '': '' @ e), (w1, [?tag]))"
    by (simp add: run_doRelease_cases)
  have c5: "proc w ?tag = (w1, out, None) \<and> proc w1 [''git'', ''push'', ''--tags''] = (w2, out2, Some e2)
      \<longrightarrow> run_doRelease proc name tmsg (w, [])
          = (releaseErrorMsg (''failed to push tags: '' @ e2),
             (w2, [?tag, [''git'', ''push'', ''--tags'']]))"
    by (simp add: run_doRelease_cases)
  have c6: "proc w ?tag = (w1, out, None) \<and> proc w1 [''git'', ''push'', ''--tags''] = (w2, out2, None)
      \<longrightarrow> run_doRelease proc name tmsg (w, [])
          = (releaseDoneMsg, (w2, [?tag, [''git'', ''push'', ''--tags'']]))"
    by (simp add: run_doRelease_cases)
  have c7: "''failed to create tag: '' @ a \<noteq> ''failed to push tags: '' @ b" by simp
  have c8: "ReleaseModel_Update lib m (releaseErrorMsg x)
       = (m\<lparr>ReleaseModel.state := releaseStateError, ReleaseModel.err := Some x\<rparr>, CmdNil)"
    by (simp add: ReleaseModel_Update_def)
  have c9: "reaches_release_form (LibMsg n)" "reaches_release_form (KeyMsg ''enter'')"
    by simp_all
  have t: "(tmsg \<noteq> [] \<longrightarrow> ?tag = [''git'', ''tag'', ''-a'', name, ''-m'', tmsg])
      \<and> (tmsg = [] \<longrightarrow> ?tag = [''git'', ''tag'', name])" by simp
  show ?thesis
    unfolding hd_log
    apply (rule conjI, rule c1)
    apply (rule conjI, rule c9(1))
    apply (rule conjI, rule c9(2))
    apply (rule conjI, rule conjunct1 [OF t])
    apply (rule conjI, rule conjunct2 [OF t])
    apply (rule conjI, rule c4)
    apply (rule conjI, rule c5)
    apply (rule conjI, rule c6)
    apply (rule conjI, rule c7)
    apply (rule c8)
    done
qed

theorem release_tag_then_push_witness:
  "run_doRelease (proc_sample False True) ''v1.0.0'' ''first release'' (0, []) =
     (releaseErrorMsg ''failed to create tag: fatal: tag already exists: exit status 128'',
      (1, [[''git'', ''tag'', ''-a'', ''v1.0.0'', ''-m'', ''first release'']]))
   \<and> run_doRelease (proc_sample True False) ''v1.0.0'' [] (0, []) =
     (releaseErrorMsg ''failed to push tags: exit status 1'',
      (2, [[''git'', ''tag'', ''v1.0.0''], [''git'', ''push'', ''--tags'']]))
   \<and> run_doRelease (proc_sample True True) ''v1.0.0'' [] (0, []) =
     (releaseDoneMsg, (2, [[''git'', ''tag'', ''v1.0.0''], [''git'', ''push'', ''--tags'']]))
   \<and> snd (ReleaseModel_Update lib_sample release_ready (KeyMsg ''enter'')) = LibCmd 1
   \<and> ReleaseModel.state (fst (ReleaseModel_Update lib_sample release_ready (KeyMsg ''enter'')))
       = releaseStateForm
   \<and> snd (ReleaseModel_Update lib_sample release_ready (LibMsg 1)) = doRelease ''v1.0.0'' []
   \<and> ReleaseModel.state (fst (ReleaseModel_Update lib_sample release_ready (LibMsg 1)))
       = releaseStateWorking"
proof -
  have t1: "hd (snd (snd (run_doRelease proc ''v1.0.0'' ''first release'' (w, []))))
              = [''git'', ''tag'', ''-a'', ''v1.0.0'', ''-m'', ''first release'']" for proc :: "nat Proc" and w
    using release_tag_then_push [where tmsg = "''first release''" and proc = proc and w = w
        and name = "''v1.0.0''"] by simp
  have t2: "hd (snd (snd (run_doRelease proc ''v1.0.0'' [] (w, []))))
              = [''git'', ''tag'', ''v1.0.0'']" for proc :: "nat Proc" and w
    using release_tag_then_push [where tmsg = "[]" and proc = proc and w = w
        and name = "''v1.0.0''"] by simp
  have a: "run_doRelease (proc_sample False True) ''v1.0.0'' ''first release'' (0, []) =
     (releaseErrorMsg ''failed to create tag: fatal: tag already exists: exit status 128'',
      (1, [[''git'', ''tag'', ''-a'', ''v1.0.0'', ''-m'', ''first release'']]))"
    using release_tag_then_push [where tmsg = "''first release''" and proc = "proc_sample False True"
        and w = 0 and name = "''v1.0.0''" and ?w1.0 = 1 and out = "''fatal: tag already exists''"
        and e = "''exit status 128''"]
    unfolding t1 by (simp add: proc_sample_def)
  have b: "run_doRelease (proc_sample True False) ''v1.0.0'' [] (0, []) =
     (releaseErrorMsg ''failed to push tags: exit status 1'',
      (2, [[''git'', ''tag'', ''v1.0.0''], [''git'', ''push'', ''--tags'']]))"
    using release_tag_then_push [where tmsg = "[]" and proc = "proc_sample True False"
        and w = 0 and name = "''v1.0.0''" and ?w1.0 = 1 and out = "[]" and ?w2.0 = 2
        and ?out2.0 = "''rejected''" and ?e2.0 = "''exit status 1''"]
    unfolding t2 by (simp add: proc_sample_def)
  have c: "run_doRelease (proc_sample True True) ''v1.0.0'' [] (0, []) =
     (releaseDoneMsg, (2, [[''git'', ''tag'', ''v1.0.0''], [''git'', ''push'', ''--tags'']]))"
    using release_tag_then_push [where tmsg = "[]" and proc = "proc_sample True True"
        and w = 0 and name = "''v1.0.0''" and ?w1.0 = 1 and out = "[]" and ?w2.0 = 2
        and ?out2.0 = "[]"]
    unfolding t2 by (simp add: proc_sample_def)
  have d: "snd (ReleaseModel_Update lib_sample release_ready (KeyMsg ''enter'')) = LibCmd 1
      \<and> ReleaseModel.state (fst (ReleaseModel_Update lib_sample release_ready (KeyMsg ''enter'')))
          = releaseStateForm"
    using release_tag_then_push [where m = release_ready and f = huh_NewForm
        and msg = "KeyMsg ''enter''" and lib = lib_sample and ?f1.0 = huh_NewForm
        and ?t1.0 = "''v1.0.0''" and ?g1.0 = "[]" and ?c1.0 = True and cmd = "LibCmd 1"
        and tmsg = "[]" and proc = "proc_sample True True" and name = "[]" and w = 0
        and ?w1.0 = 0 and out = "[]" and e = "[]" and ?w2.0 = 0 and ?out2.0 = "[]"
        and ?e2.0 = "[]" and a = "[]" and b = "[]" and x = "[]" and n = 1]
    by (simp add: release_ready_fields lib_sample_release_step huh_NewForm_def)
  have g: "snd (ReleaseModel_Update lib_sample release_ready (LibMsg 1)) = doRelease ''v1.0.0'' []
      \<and> ReleaseModel.state (fst (ReleaseModel_Update lib_sample release_ready (LibMsg 1)))
          = releaseStateWorking"
    using release_tag_then_push [where m = release_ready and f = huh_NewForm
        and msg = "LibMsg 1" and lib = lib_sample
        and ?f1.0 = "huh_NewForm\<lparr>State := StateCompleted\<rparr>"
        and ?t1.0 = "''v1.0.0''" and ?g1.0 = "[]" and ?c1.0 = True and cmd = CmdNil
        and tmsg = "[]" and proc = "proc_sample True True" and name = "[]" and w = 0
        and ?w1.0 = 0 and out = "[]" and e = "[]" and ?w2.0 = 0 and ?out2.0 = "[]"
        and ?e2.0 = "[]" and a = "[]" and b = "[]" and x = "[]" and n = 1]
    by (simp add: release_ready_fields lib_sample_release_step)
  from a b c d g show ?thesis by simp
qed

section \<open>Loading the configuration\<close>

lemma Load_not_exist:
  "ReadFile env = ReadNotExist e \<Longrightarrow>
     Load env = ((DefaultConfig, None), snd (Save env DefaultConfig))"
  by (simp add: Load_def Let_def)

lemma Save_writes:
  "MkdirAll env = None \<Longrightarrow> Marshal env c = Inr d \<Longrightarrow> Save env c = (WriteFile env d, Some d)"
  by (simp add: Save_def)

lemma Load_read_failed:
  "ReadFile env = ReadFailed e \<Longrightarrow> Load env = ((DefaultConfig, None), None)"
  by (simp add: Load_def Let_def)

lemma Load_blank_key:
  "ReadFile env = ReadData d \<Longrightarrow> Unmarshal env d DefaultConfig = Inr c \<Longrightarrow>
   APIKey (AI c) = [] \<Longrightarrow>
   APIKey (AI (fst (fst (Load env)))) = Getenv env ''OPENAI_API_KEY''"
  by (simp add: Load_def Let_def)

lemma DefaultConfig_APIKey: "APIKey (AI DefaultConfig) = []"
  by (simp add: DefaultConfig_def)

lemma env_sample_fields:
  "ReadFile (env_sample r) = r"
  "Getenv (env_sample r) ''OPENAI_API_KEY'' = ''sk-test''"
  "Unmarshal (env_sample r) ''ai: {}'' c = Inr c"
  "MkdirAll (env_sample r) = None"
  "Marshal (env_sample r) DefaultConfig = Inr ''editor: vim; provider: openai''"
  "WriteFile (env_sample r) d = None"
  by (simp_all add: env_sample_def DefaultConfig_def)

text \<open>
  Claim C8, on the code.  With the variable \<open>OPENAI_API_KEY\<close> set: when the file is
  missing, \<open>Load\<close> writes the defaults to the file and returns them, and the key of the
  result is blank; so it is when the file cannot be read.  Only a file that is read and
  parsed with a blank key gets the key of the environment.
\<close>

theorem load_missing_file_skips_env:
  "Getenv (env_sample (ReadNotExist ''no such file or directory'')) ''OPENAI_API_KEY'' = ''sk-test''
   \<and> Load (env_sample (ReadNotExist ''no such file or directory''))
        = ((DefaultConfig, None), Some ''editor: vim; provider: openai'')
   \<and> APIKey (AI (fst (fst (Load (env_sample (ReadNotExist ''no such file or directory'')))))) = []
   \<and> APIKey (AI (fst (fst (Load (env_sample (ReadFailed ''permission denied'')))))) = []
   \<and> APIKey (AI (fst (fst (Load (env_sample (ReadData ''ai: {}'')))))) = ''sk-test''"
  by (simp add: Load_not_exist [where e = "''no such file or directory''"]
      Load_read_failed [where e = "''permission denied''"]
      Load_blank_key [where d = "''ai: {}''" and c = DefaultConfig]
      Save_writes [where d = "''editor: vim; provider: openai''"]
      DefaultConfig_APIKey env_sample_fields)

section \<open>The flows the menu can start\<close>

lemma SubModel_Update_kind:
  "rollback_or_release (fst (SubModel_Update lib sm msg)) = rollback_or_release sm"
  by (cases sm) (simp_all add: SubModel_Update_def split: prod.splits)

lemma executeAction_kind:
  "no_rollback_release m \<Longrightarrow> no_rollback_release (fst (executeAction lib m a))"
  by (cases a) (simp_all add: executeAction_def no_rollback_release_def split: prod.splits)

lemma Model_list_kind:
  "no_rollback_release m \<Longrightarrow> no_rollback_release (fst (Model_list lib m msg))"
  by (simp add: Model_list_def no_rollback_release_def split: prod.splits)

lemma no_rollback_release_update:
  "no_rollback_release (m\<lparr>Model.list := l\<rparr>) = no_rollback_release m"
  "no_rollback_release (m\<lparr>Model.width := w\<rparr>) = no_rollback_release m"
  "no_rollback_release (m\<lparr>Model.height := h\<rparr>) = no_rollback_release m"
  "no_rollback_release (m\<lparr>Model.status := st\<rparr>) = no_rollback_release m"
  "no_rollback_release (m\<lparr>Model.loading := b\<rparr>) = no_rollback_release m"
  "no_rollback_release (m\<lparr>Model.message := t\<rparr>) = no_rollback_release m"
  "no_rollback_release (m\<lparr>Model.msgType := ty\<rparr>) = no_rollback_release m"
  "no_rollback_release (m\<lparr>Model.quitting := q\<rparr>) = no_rollback_release m"
  "no_rollback_release (m\<lparr>Model.spinner := sp\<rparr>) = no_rollback_release m"
  "no_rollback_release (m\<lparr>Model.inSubView := v\<rparr>) = no_rollback_release m"
  by (simp_all add: no_rollback_release_def)

lemma Model_menu_kind:
  assumes "no_rollback_release m"
  shows "no_rollback_release (fst (Model_menu lib m msg))"
proof (cases msg)
  case (KeyMsg k)
  with assms show ?thesis
    by (simp add: Model_menu_def executeAction_kind Model_list_kind
        no_rollback_release_update split: option.splits)
qed (use assms in \<open>simp_all add: Model_menu_def Model_list_kind no_rollback_release_update
      split: prod.splits\<close>)

lemma Model_Update_kind:
  assumes "no_rollback_release m"
  shows "no_rollback_release (fst (Model_Update lib m msg))"
proof (cases "if Model.inSubView m then Model.subModel m else None")
  case None
  with assms show ?thesis by (simp add: Model_Update_def Model_menu_kind)
next
  case (Some sm)
  then have sm: "Model.subModel m = Some sm" by (simp split: if_splits)
  with assms have "\<not> rollback_or_release sm" by (simp add: no_rollback_release_def)
  then have k: "\<not> rollback_or_release (fst (SubModel_Update lib sm msg))"
    by (simp add: SubModel_Update_kind)
  obtain sm1 cmd where u: "SubModel_Update lib sm msg = (sm1, cmd)"
    by (cases "SubModel_Update lib sm msg")
  with k have k1: "\<not> rollback_or_release sm1" by simp
  have sub: "no_rollback_release (m\<lparr>Model.subModel := Some sm1\<rparr>)"
    "no_rollback_release (m\<lparr>Model.subModel := None\<rparr>)"
    using k1 by (simp_all add: no_rollback_release_def)
  have r: "Model_Update lib m msg =
     (case msg of
        ReturnToMenuMsg t ty \<Rightarrow>
          ((if t \<noteq> [] then m\<lparr>Model.subModel := None, Model.inSubView := False,
                                  Model.message := t, Model.msgType := ty\<rparr>
            else m\<lparr>Model.subModel := None, Model.inSubView := False\<rparr>),
           Batch [refreshStatus, clearMessageAfter])
      | _ \<Rightarrow> (m\<lparr>Model.subModel := Some sm1\<rparr>, cmd))"
    using Some u by (cases msg) (simp_all add: Model_Update_def Let_def)
  show ?thesis
    unfolding r using sub by (cases msg) (simp_all add: no_rollback_release_update)
qed

lemma Model_run_kind:
  "no_rollback_release m \<Longrightarrow> no_rollback_release (Model_run lib m msgs)"
  unfolding Model_run_def
  by (induction msgs arbitrary: m) (simp_all add: Model_Update_kind)

lemma NewModel_kind: "no_rollback_release (NewModel c)"
  by (simp add: NewModel_def no_rollback_release_def)

lemma menu_items_actions:
  "map action menu_items =
     [ActionAdd, ActionCommit, ActionAICommit, ActionPush, ActionPull, ActionReset,
      ActionPublish, ActionOpen, ActionLazygit, ActionBranches, ActionQuit]"
  by (simp add: menu_items_def item_def)

text \<open>
  Claim C10.  No item of the menu has the action \<open>ActionRollback\<close>; \<open>executeAction\<close> does
  nothing for \<open>ActionRollback\<close> and never installs a rollback or release model; and after
  any sequence of messages from the start (so, whatever keys are pressed), the sub-model
  of the menu is never a rollback model or a release model.
\<close>

theorem rollback_release_unreachable:
  "ActionRollback \<notin> set (map action (Model.items (NewModel c)))
   \<and> executeAction lib m ActionRollback = (m, CmdNil)
   \<and> (\<forall>r. Model.subModel (fst (executeAction lib (NewModel c) a)) \<noteq> Some (SubRollback r))
   \<and> (\<forall>r. Model.subModel (fst (executeAction lib (NewModel c) a)) \<noteq> Some (SubRelease r))
   \<and> (\<forall>r. Model.subModel (Model_run lib (NewModel c) msgs) \<noteq> Some (SubRollback r))
   \<and> (\<forall>r. Model.subModel (Model_run lib (NewModel c) msgs) \<noteq> Some (SubRelease r))"
proof -
  have i: "Model.items (NewModel c) = menu_items" by (simp add: NewModel_def)
  have e: "no_rollback_release (fst (executeAction lib (NewModel c) a))"
    by (rule executeAction_kind [OF NewModel_kind])
  have r: "no_rollback_release (Model_run lib (NewModel c) msgs)"
    by (rule Model_run_kind [OF NewModel_kind])
  have n: "Model.subModel x \<noteq> Some (SubRollback r) \<and> Model.subModel x \<noteq> Some (SubRelease q)"
    if "no_rollback_release x" for x r q
    using that by (auto simp: no_rollback_release_def)
  show ?thesis
    using n [OF e] n [OF r] by (simp add: i menu_items_actions executeAction_def)
qed

end
